theory Spec2Isabelle
  imports Main
begin

section \<open>Python bindings of the XML parsers (src/python/xml\_parser-py.c)\<close>

text \<open>
  The Python values an entry point can receive. \<open>PyCallable_Check\<close> is true of functions
  (and other callables), false of \<open>None\<close>, strings, integers and plain objects.
\<close>

datatype PyObject =
    Py_None
  | PyString string
  | PyLong int
  | PyFunction nat
  | PyPlainObject nat

fun PyCallable_Check :: "PyObject \<Rightarrow> bool" where
  "PyCallable_Check (PyFunction _) = True"
| "PyCallable_Check _ = False"

datatype py_exception =
    ArgParseError
  | PyExc_TypeError string
  | PyExc_ValueError string
  | CreaterepoCError string

text \<open>
  \<open>PyArg_ParseTuple\<close> with the formats \<open>sOOOi\<close> and \<open>sOOO\<close>: \<open>s\<close> takes a string
  and refuses one with an embedded NUL character, \<open>O\<close> takes any object, \<open>i\<close> an
  integer that fits a C \<open>int\<close>.
\<close>

definition format_s :: "string \<Rightarrow> bool" where
  "format_s str = (CHR 0x00 \<notin> set str)"

fun PyArg_ParseTuple_sOOOi ::
  "PyObject list \<Rightarrow> (string \<times> PyObject \<times> PyObject \<times> PyObject \<times> int) option" where
  "PyArg_ParseTuple_sOOOi [PyString fname, a, b, c, PyLong i] =
     (if format_s fname \<and> - (2 ^ 31) \<le> i \<and> i < 2 ^ 31 then Some (fname, a, b, c, i)
      else None)"
| "PyArg_ParseTuple_sOOOi _ = None"

fun PyArg_ParseTuple_sOOO ::
  "PyObject list \<Rightarrow> (string \<times> PyObject \<times> PyObject \<times> PyObject) option" where
  "PyArg_ParseTuple_sOOO [PyString fname, a, b, c] =
     (if format_s fname then Some (fname, a, b, c) else None)"
| "PyArg_ParseTuple_sOOO _ = None"

text \<open>
  One call of an underlying C parser, as the entry point issues it: the file name, which
  of the three C callbacks are passed (a \<open>NULL\<close> pointer is \<open>False\<close>), and \<open>do_files\<close>
  for the primary parser.
\<close>

datatype parser_call =
    Call_cr_xml_parse_primary string bool bool bool int
  | Call_cr_xml_parse_filelists string bool bool bool
  | Call_cr_xml_parse_other string bool bool bool

text \<open>
  The underlying parsers are library code outside these files; their outcome (the
  \<open>GError\<close> message they leave, if any) is a parameter of the model.
\<close>

type_synonym xml_parser = "parser_call \<Rightarrow> string option"

text \<open>
  An entry point returns the calls it made of the underlying parser and either the
  exception it raised (\<open>return NULL\<close>) or \<open>None\<close> (\<open>Py_RETURN_NONE\<close>).
\<close>

type_synonym py_result = "parser_call list \<times> (py_exception + unit)"

definition py_xml_parse_primary :: "xml_parser \<Rightarrow> PyObject list \<Rightarrow> py_result" where
  "py_xml_parse_primary parser args =
     (case PyArg_ParseTuple_sOOOi args of
        None \<Rightarrow> ([], Inl ArgParseError)
      | Some (filename, py_newpkgcb, py_pkgcb, py_warningcb, do_files) \<Rightarrow>
          if \<not> PyCallable_Check py_newpkgcb \<and> py_newpkgcb \<noteq> Py_None then
            ([], Inl (PyExc_TypeError ''newpkgcb must be callable or None''))
          else if \<not> PyCallable_Check py_pkgcb \<and> py_pkgcb \<noteq> Py_None then
            ([], Inl (PyExc_TypeError ''pkgcb must be callable or None''))
          else if \<not> PyCallable_Check py_warningcb \<and> py_warningcb \<noteq> Py_None then
            ([], Inl (PyExc_TypeError ''warningcb must be callable or None''))
          else if py_newpkgcb = Py_None \<and> py_pkgcb = Py_None then
            ([], Inl (PyExc_ValueError ''both pkgcb and newpkgcb cannot be None''))
          else
            let call = Call_cr_xml_parse_primary filename
                         (py_newpkgcb \<noteq> Py_None) (py_pkgcb \<noteq> Py_None)
                         (py_warningcb \<noteq> Py_None) do_files
            in (case parser call of
                  Some tmp_err \<Rightarrow> ([call], Inl (CreaterepoCError tmp_err))
                | None \<Rightarrow> ([call], Inr ())))"

definition py_xml_parse_filelists :: "xml_parser \<Rightarrow> PyObject list \<Rightarrow> py_result" where
  "py_xml_parse_filelists parser args =
     (case PyArg_ParseTuple_sOOO args of
        None \<Rightarrow> ([], Inl ArgParseError)
      | Some (filename, py_newpkgcb, py_pkgcb, py_warningcb) \<Rightarrow>
          if \<not> PyCallable_Check py_newpkgcb \<and> py_newpkgcb \<noteq> Py_None then
            ([], Inl (PyExc_TypeError ''newpkgcb must be callable or None''))
          else if \<not> PyCallable_Check py_pkgcb \<and> py_pkgcb \<noteq> Py_None then
            ([], Inl (PyExc_TypeError ''pkgcb must be callable or None''))
          else if \<not> PyCallable_Check py_warningcb \<and> py_warningcb \<noteq> Py_None then
            ([], Inl (PyExc_TypeError ''warningcb must be callable or None''))
          else if py_newpkgcb = Py_None \<and> py_pkgcb = Py_None then
            ([], Inl (PyExc_ValueError ''both pkgcb and newpkgcb cannot be None''))
          else
            let call = Call_cr_xml_parse_filelists filename
                         (py_newpkgcb \<noteq> Py_None) (py_pkgcb \<noteq> Py_None)
                         (py_warningcb \<noteq> Py_None)
            in (case parser call of
                  Some tmp_err \<Rightarrow> ([call], Inl (CreaterepoCError tmp_err))
                | None \<Rightarrow> ([call], Inr ())))"

definition py_xml_parse_other :: "xml_parser \<Rightarrow> PyObject list \<Rightarrow> py_result" where
  "py_xml_parse_other parser args =
     (case PyArg_ParseTuple_sOOO args of
        None \<Rightarrow> ([], Inl ArgParseError)
      | Some (filename, py_newpkgcb, py_pkgcb, py_warningcb) \<Rightarrow>
          if \<not> PyCallable_Check py_newpkgcb \<and> py_newpkgcb \<noteq> Py_None then
            ([], Inl (PyExc_TypeError ''newpkgcb must be callable or None''))
          else if \<not> PyCallable_Check py_pkgcb \<and> py_pkgcb \<noteq> Py_None then
            ([], Inl (PyExc_TypeError ''pkgcb must be callable or None''))
          else if \<not> PyCallable_Check py_warningcb \<and> py_warningcb \<noteq> Py_None then
            ([], Inl (PyExc_TypeError ''warningcb must be callable or None''))
          else if py_newpkgcb = Py_None \<and> py_pkgcb = Py_None then
            ([], Inl (PyExc_ValueError ''both pkgcb and newpkgcb cannot be None''))
          else
            let call = Call_cr_xml_parse_other filename
                         (py_newpkgcb \<noteq> Py_None) (py_pkgcb \<noteq> Py_None)
                         (py_warningcb \<noteq> Py_None)
            in (case parser call of
                  Some tmp_err \<Rightarrow> ([call], Inl (CreaterepoCError tmp_err))
                | None \<Rightarrow> ([call], Inr ())))"

text \<open>The type check each entry point makes of a callback argument.\<close>

definition bad_callback :: "PyObject \<Rightarrow> bool" where
  "bad_callback cb = (\<not> PyCallable_Check cb \<and> cb \<noteq> Py_None)"

fun is_TypeError :: "py_exception + unit \<Rightarrow> bool" where
  "is_TypeError (Inl (PyExc_TypeError _)) = True"
| "is_TypeError _ = False"

text \<open>The three entry points on the same file name and callbacks.\<close>

definition xml_parse_entry_points ::
  "xml_parser \<Rightarrow> string \<Rightarrow> PyObject \<Rightarrow> PyObject \<Rightarrow> PyObject \<Rightarrow> int \<Rightarrow> py_result list" where
  "xml_parse_entry_points parser f n p w d =
     [py_xml_parse_primary parser [PyString f, n, p, w, PyLong d],
      py_xml_parse_filelists parser [PyString f, n, p, w],
      py_xml_parse_other parser [PyString f, n, p, w]]"

section \<open>The indexer (src/createrepo\_c.c): data\<close>

text \<open>
  Modelled from the spec: \<open>struct Package\<close> is declared in \<open>package.h\<close>, which is not
  among the sources. The fields are those of the spec's PackageRecord; \<open>dumper_thread\<close>
  reads \<open>time_file\<close>, \<open>size_package\<close> and \<open>checksum_type\<close> and writes
  \<open>location_href\<close> and \<open>location_base\<close> (a \<open>NULL\<close> base is \<open>None\<close>). The times
  and the size are 64-bit integers that \<open>dumper_thread\<close> only compares for equality;
  \<open>checksum_type\<close> is the string \<open>strcmp\<close> reads, taken not to be \<open>NULL\<close>.
\<close>

record Package =
  pkgId :: string
  name :: string
  arch :: string
  version :: string
  epoch :: string
  release :: string
  checksum_type :: string
  time_file :: int
  time_build :: int
  size_package :: int
  location_href :: string
  location_base :: "string option"
  requires :: "string list"
  provides :: "string list"
  files :: "(string \<times> string) list"
  changelogs :: "(string \<times> int \<times> string) list"

text \<open>
  Modelled from the spec: \<open>ChecksumType\<close> is an enumeration of \<open>constants.h\<close> (not among
  the sources); the spec gives the tags md5, sha1, sha256 and sha512.
\<close>

datatype ChecksumType = PKG_CHECKSUM_MD5 | PKG_CHECKSUM_SHA1 | PKG_CHECKSUM_SHA256 | PKG_CHECKSUM_SHA512

text \<open>What \<open>xml_dump\<close> returns: the three fragments of one package.\<close>

record XmlStruct =
  primary :: string
  filelists :: string
  other :: string

text \<open>The two fields of \<open>struct stat\<close> that the program reads.\<close>

record stat_buf =
  st_mtime :: int
  st_size :: int

record PoolTask =
  full_path :: string
  filename :: string
  path :: string

text \<open>
  The three documents. One value names the compressed file (\<open>pri_f\<close>, \<open>fil_f\<close>,
  \<open>oth_f\<close>), the database statements and the lock (\<open>LOCK_PRI\<close>, \<open>LOCK_FIL\<close>,
  \<open>LOCK_OTH\<close>) of a document.
\<close>

datatype sink = PRI | FIL | OTH

text \<open>
  \<open>struct UserData\<close>, every field with the prefix \<open>ud_\<close> (several names are also fields
  of \<open>Package\<close> and of the options). A statements handle is modelled by whether it is
  non-\<open>NULL\<close>; the three file handles are the \<^typ>\<open>sink\<close> values; \<open>old_metadata\<close> is
  \<open>None\<close> for the \<open>NULL\<close> table and otherwise the map from file name to record.
\<close>

record UserData =
  ud_pri_statements :: bool
  ud_fil_statements :: bool
  ud_oth_statements :: bool
  ud_changelog_limit :: int
  ud_location_base :: "string option"
  ud_repodir_name_len :: int
  ud_checksum_type_str :: string
  ud_checksum_type :: ChecksumType
  ud_quiet :: bool
  ud_verbose :: bool
  ud_skip_symlinks :: bool
  ud_package_count :: int
  ud_skip_stat :: bool
  ud_old_metadata :: "(string \<rightharpoonup> Package) option"

text \<open>
  What a worker does to the outside world while it runs one task, in the order it does
  it. \<open>Assign_locations\<close> is the pair of assignments to the cached record (lines 171 and
  172); \<open>Xml_dump\<close> and \<open>Add_pkg_db\<close> carry the record as the callee reads it. The calls
  of \<open>g_debug\<close> and the freeing of memory are left out.
\<close>

datatype worker_event =
    Stat_failed string
  | Assign_locations string "string option"
  | Package_from_file string ChecksumType string "string option" int
  | Cannot_read_package string
  | Xml_dump Package
  | G_LOCK sink
  | Cw_puts_package sink string
  | Add_pkg_db sink Package
  | G_UNLOCK sink

section \<open>The worker: \<open>dumper_thread\<close>\<close>

text \<open>
  A cached record lives in the table that all workers share, and the table is keyed by the
  base name of the file (line 151): two tasks for files of one base name in different
  directories find the same record. The record is written at lines 171 and 172 and read
  at lines 187 to 210 with no lock that covers both, and its \<open>location_href\<close> is a pointer
  into \<open>task->full_path\<close>, which the task frees at line 226. What a read of
  \<open>location_href\<close> yields is therefore not determined by the task alone:

  \<^item> \<open>href_seen\<close> gives, for each of the four places where the record is read, \<open>None\<close>
    when the worker's own assignment is the last one before the read, and otherwise the
    characters the read finds: the \<open>location_href\<close> of another task that hit the same
    record, or what is left of it once that task has freed its path;
  \<^item> \<open>href_left\<close> is what the record's \<open>location_href\<close> reads as after the task has
    freed its path.

  \<open>location_base\<close> is assigned the same pointer, \<open>udata->location_base\<close>, by every
  worker, and no other field of a record is written by any worker.
\<close>

datatype read_point = At_xml_dump | At_add_pkg_db sink

record Interference =
  href_seen :: "read_point \<Rightarrow> string option"
  href_left :: string

text \<open>
  The outside world as a worker meets it: \<open>stat\<close> (\<open>None\<close> when it returns \<open>-1\<close>), the
  header parser \<open>package_from_file\<close> (\<open>None\<close> for \<open>NULL\<close>) and the serializer
  \<open>xml_dump\<close>, both library code outside these files, and what the other workers do to
  the record that a task shares with them.
\<close>

record Worker_env =
  stat :: "string \<Rightarrow> stat_buf option"
  package_from_file :: "string \<Rightarrow> ChecksumType \<Rightarrow> string \<Rightarrow> string option \<Rightarrow> int \<Rightarrow> Package option"
  xml_dump :: "Package \<Rightarrow> XmlStruct"
  interference :: "PoolTask \<Rightarrow> Interference"

text \<open>
  The three critical sections at the end of \<open>dumper_thread\<close>: for each document in turn,
  take its lock, write the fragment, insert into the database when there are statements,
  release the lock. \<open>pkg_at\<close> is the record as the insert of each document reads it.
\<close>

definition write_sink :: "sink \<Rightarrow> bool \<Rightarrow> string \<Rightarrow> Package \<Rightarrow> worker_event list" where
  "write_sink s statements fragment pkg =
     [G_LOCK s, Cw_puts_package s fragment]
     @ (if statements then [Add_pkg_db s pkg] else [])
     @ [G_UNLOCK s]"

definition write_sinks :: "UserData \<Rightarrow> (sink \<Rightarrow> Package) \<Rightarrow> XmlStruct \<Rightarrow> worker_event list" where
  "write_sinks udata pkg_at res =
     write_sink PRI (ud_pri_statements udata) (primary res) (pkg_at PRI)
     @ write_sink FIL (ud_fil_statements udata) (filelists res) (pkg_at FIL)
     @ write_sink OTH (ud_oth_statements udata) (other res) (pkg_at OTH)"

text \<open>
  \<open>location_href\<close> is \<open>full_path\<close> without its first \<open>repodir_name_len\<close> characters
  (the path of the repository and its \<open>/\<close>).
\<close>

definition task_location_href :: "UserData \<Rightarrow> PoolTask \<Rightarrow> string" where
  "task_location_href udata task = drop (nat (ud_repodir_name_len udata)) (full_path task)"

text \<open>The two assignments made to a cached record that is used.\<close>

definition set_locations :: "UserData \<Rightarrow> PoolTask \<Rightarrow> Package \<Rightarrow> Package" where
  "set_locations udata task md =
     md\<lparr>location_href := task_location_href udata task,
        location_base := ud_location_base udata\<rparr>"

text \<open>
  The cached record as a later read finds it: the record after the two assignments, with
  the \<open>location_href\<close> that another worker has put there since, if one has.
\<close>

definition seen_record ::
  "Interference \<Rightarrow> UserData \<Rightarrow> PoolTask \<Rightarrow> Package \<Rightarrow> read_point \<Rightarrow> Package" where
  "seen_record i udata task md pt =
     (case href_seen i pt of
        None \<Rightarrow> set_locations udata task md
      | Some h \<Rightarrow> (set_locations udata task md)\<lparr>location_href := h\<rparr>)"

text \<open>The cached record as the task leaves it in the table.\<close>

definition left_record :: "Interference \<Rightarrow> UserData \<Rightarrow> PoolTask \<Rightarrow> Package \<Rightarrow> Package" where
  "left_record i udata task md =
     md\<lparr>location_href := href_left i, location_base := ud_location_base udata\<rparr>"

text \<open>The call of the header parser for a task.\<close>

definition call_package_from_file :: "UserData \<Rightarrow> PoolTask \<Rightarrow> worker_event" where
  "call_package_from_file udata task =
     Package_from_file (full_path task) (ud_checksum_type udata)
       (task_location_href udata task) (ud_location_base udata) (ud_changelog_limit udata)"

text \<open>
  What \<open>dumper_thread\<close> does with a cached record that it uses (lines 169 to 173, 186 and
  187, 190 to 212): the two assignments, the serializer on the record, the three critical
  sections with the record.
\<close>

definition cached_events ::
  "('a Worker_env_scheme) \<Rightarrow> UserData \<Rightarrow> PoolTask \<Rightarrow> Package \<Rightarrow> worker_event list" where
  "cached_events env udata task md =
     (let seen = seen_record (interference env task) udata task md;
          res = xml_dump env (seen At_xml_dump)
      in Assign_locations (task_location_href udata task) (ud_location_base udata)
         # Xml_dump (seen At_xml_dump)
         # write_sinks udata (\<lambda>s. seen (At_add_pkg_db s)) res)"

text \<open>
  What \<open>dumper_thread\<close> does when it uses no cached record (lines 176 to 184, 190 to 212):
  the header parser on the file and, unless that fails, the serializer and the three
  critical sections with the parser's record, which no other worker has.
\<close>

definition fresh_events ::
  "('a Worker_env_scheme) \<Rightarrow> UserData \<Rightarrow> PoolTask \<Rightarrow> worker_event list" where
  "fresh_events env udata task =
     (case package_from_file env (full_path task) (ud_checksum_type udata)
             (task_location_href udata task) (ud_location_base udata)
             (ud_changelog_limit udata) of
        None \<Rightarrow> [call_package_from_file udata task, Cannot_read_package (full_path task)]
      | Some pkg \<Rightarrow>
          call_package_from_file udata task # Xml_dump pkg
            # write_sinks udata (\<lambda>_. pkg) (xml_dump env pkg))"

text \<open>
  \<open>dumper_thread\<close> returns what it did and the user data afterwards: a cached record that
  is used is changed in place, in the shared table. \<open>stat_buf\<close> is read only where
  \<open>stat\<close> has filled it.
\<close>

definition dumper_thread ::
  "('a Worker_env_scheme) \<Rightarrow> UserData \<Rightarrow> PoolTask \<Rightarrow> worker_event list \<times> UserData" where
  "dumper_thread env udata task =
     (let stat_res = stat env (full_path task)
      in
      if ud_old_metadata udata \<noteq> None \<and> \<not> ud_skip_stat udata \<and> stat_res = None then
        ([Stat_failed (full_path task)], udata)
      else
        let md = (case ud_old_metadata udata of
                    None \<Rightarrow> None
                  | Some old_metadata \<Rightarrow> old_metadata (filename task));
            old_used =
              (case md of
                 None \<Rightarrow> False
               | Some m \<Rightarrow>
                   if ud_skip_stat udata then True
                   else (case stat_res of
                           None \<Rightarrow> False
                         | Some sb \<Rightarrow>
                             st_mtime sb = time_file m
                             \<and> st_size sb = size_package m
                             \<and> ud_checksum_type_str udata = checksum_type m))
        in
        case (old_used, md, ud_old_metadata udata) of
          (True, Some m, Some old_metadata) \<Rightarrow>
            (cached_events env udata task m,
             udata\<lparr>ud_old_metadata :=
                      Some (old_metadata(filename task \<mapsto>
                              left_record (interference env task) udata task m))\<rparr>)
        | _ \<Rightarrow> (fresh_events env udata task, udata))"

text \<open>The locks a worker holds after a run of events, most recent first.\<close>

fun held_locks :: "worker_event list \<Rightarrow> sink list \<Rightarrow> sink list" where
  "held_locks [] held = held"
| "held_locks (G_LOCK s # es) held = held_locks es (s # held)"
| "held_locks (G_UNLOCK s # es) held = held_locks es (removeAll s held)"
| "held_locks (_ # es) held = held_locks es held"

fun is_G_LOCK :: "worker_event \<Rightarrow> bool" where
  "is_G_LOCK (G_LOCK _) = True"
| "is_G_LOCK _ = False"

fun is_Package_from_file :: "worker_event \<Rightarrow> bool" where
  "is_Package_from_file (Package_from_file _ _ _ _ _) = True"
| "is_Package_from_file _ = False"

fun is_Assign_locations :: "worker_event \<Rightarrow> bool" where
  "is_Assign_locations (Assign_locations _ _) = True"
| "is_Assign_locations _ = False"

text \<open>The records handed to the serializer and to the databases in a run of events.\<close>

fun records_handed :: "worker_event list \<Rightarrow> Package list" where
  "records_handed [] = []"
| "records_handed (Xml_dump p # es) = p # records_handed es"
| "records_handed (Add_pkg_db _ p # es) = p # records_handed es"
| "records_handed (_ # es) = records_handed es"

text \<open>
  A check of a run of events against the lock currently held: a lock is taken only while
  none is held, and the lock released is the one held.
\<close>

fun lock_discipline :: "worker_event list \<Rightarrow> sink option \<Rightarrow> bool" where
  "lock_discipline [] h = True"
| "lock_discipline (G_LOCK s # es) h = (h = None \<and> lock_discipline es (Some s))"
| "lock_discipline (G_UNLOCK s # es) h = (h = Some s \<and> lock_discipline es None)"
| "lock_discipline (_ # es) h = lock_discipline es h"

section \<open>The main thread: \<open>main\<close>\<close>

text \<open>
  Modelled from the spec: \<open>CompressionType\<close> is an enumeration of
  \<open>compression_wrapper.h\<close> (not among the sources); \<open>main\<close> names these four values.
\<close>

datatype CompressionType = UNKNOWN_COMPRESSION | GZ_COMPRESSION | BZ2_COMPRESSION | XZ_COMPRESSION

text \<open>
  Modelled from the spec: \<open>struct CmdOptions\<close> is declared in \<open>cmd_parser.h\<close> (not among
  the sources). The fields are those \<open>main\<close> and \<open>allowed_file\<close> read, one per option
  of the spec's command line, every one with the prefix \<open>opt_\<close>. A \<open>NULL\<close> string is
  \<open>None\<close>, a \<open>NULL\<close> list is the empty list.
\<close>

record CmdOptions =
  opt_version :: bool
  opt_input_dir :: string
  opt_outputdir :: "string option"
  opt_quiet :: bool
  opt_verbose :: bool
  opt_groupfile_fullpath :: "string option"
  opt_update :: bool
  opt_l_update_md_paths :: "string list"
  opt_compression_type :: CompressionType
  opt_xz_compression :: bool
  opt_no_database :: bool
  opt_changelog_limit :: int
  opt_location_base :: "string option"
  opt_checksum_type :: ChecksumType
  opt_skip_symlinks :: bool
  opt_skip_stat :: bool
  opt_include_pkgs :: "string list"
  opt_exclude_masks :: "string list"
  opt_workers :: int
  opt_unique_md_filenames :: bool

text \<open>
  Modelled from the spec: a \<open>RepomdRecord\<close> (\<open>repomd.h\<close>, not among the sources) is the
  repo-relative path of an artifact and what \<open>fill_missing_data\<close> computes of it; the
  checksum is \<open>None\<close> until it is computed.
\<close>

record RepomdRecord =
  rr_location_href :: string
  rr_checksum :: "string option"

definition new_repomdrecord :: "string \<Rightarrow> RepomdRecord" where
  "new_repomdrecord p = \<lparr>rr_location_href = p, rr_checksum = None\<rparr>"

datatype mkdir_result = MKDIR_OK | MKDIR_EEXIST | MKDIR_ERROR

text \<open>
  What the main thread does to the outside world, in the order it does it; what a worker
  does carries the task it runs. \<open>Call\<close> is a call of a library function that no
  decision of \<open>main\<close> depends on, with its name and string arguments. \<open>G_mkdir\<close>,
  \<open>Cw_open\<close>, \<open>G_rename\<close>, \<open>G_dir_open\<close>, \<open>Fill_missing_data\<close>, \<open>Compress_file\<close>,
  \<open>Xml_repomd\<close> and \<open>Fopen\<close> carry the outcome of the call (for \<open>Xml_repomd\<close>, whether the
  text returned is not \<open>NULL\<close>). The calls of
  \<open>g_debug\<close> and \<open>g_message\<close>, the choice of log handlers and the freeing of memory are
  left out.
\<close>

datatype event =
    Call string "string list"
  | G_critical string
  | G_warning string
  | G_mkdir string mkdir_result
  | Assign_tmp_repodata_path "string option"
  | Sigaction_SIGINT bool
  | Locate_and_load_xml_metadata string bool
  | Cw_open sink string bool
  | G_thread_pool_new int
  | G_thread_pool_push PoolTask
  | Cw_printf_header sink int
  | G_thread_pool_set_max_threads int
  | Worker PoolTask worker_event
  | G_thread_pool_free
  | Cw_puts_footer sink
  | Cw_close sink
  | G_rename string string bool
  | G_dir_open string bool
  | Fill_missing_data string bool
  | Compress_file string bool
  | Xml_repomd bool
  | Fopen string bool
  | Fputs_repomd string
  | Remove_dir string

text \<open>
  The outside world as the main thread meets it, beyond what a worker meets: the answers
  of the operating system and of the library functions that are not among the sources.
  \<^item> \<open>parse_arguments\<close>: the options parsed (\<open>None\<close> for \<open>NULL\<close>); \<open>argv\<close>: the
    arguments left after parsing, \<open>argc\<close> is its length.
  \<^item> \<open>check_arguments\<close>: the options as it leaves them, \<open>None\<close> when it returns false.
  \<^item> \<open>g_file_test_input_dir\<close>: the test of the input directory.
  \<^item> \<open>repodata\<close>: for a repository path, whether loading its metadata succeeds and the
    entries the load puts into the table, in order.
  \<^item> \<open>g_dir_read\<close>: \<open>g_dir_open\<close> and the names \<open>g_dir_read_name\<close> then yields, \<open>None\<close>
    when the directory cannot be opened, during the walk; \<open>out_repo_read\<close>: the same for
    the old output repodata, when the old files are moved.
  \<^item> \<open>is_regular\<close>, \<open>is_dir\<close>: \<open>g_file_test\<close> with \<open>G_FILE_TEST_IS_REGULAR\<close> and
    \<open>G_FILE_TEST_IS_DIR\<close> (both follow symbolic links); \<open>is_symlink\<close>: with
    \<open>G_FILE_TEST_IS_SYMLINK\<close>.
  \<^item> \<open>g_pattern_match\<close>: whether an exclude mask matches a string.
  \<^item> the others: whether the call of that name succeeds, or what it returns.
\<close>

record Env = Worker_env +
  parse_arguments :: "CmdOptions option"
  argv :: "string list"
  get_filename :: "string \<Rightarrow> string"
  normalize_dir_path :: "string \<Rightarrow> string"
  g_file_test_input_dir :: "string \<Rightarrow> bool"
  check_arguments :: "CmdOptions \<Rightarrow> CmdOptions option"
  g_mkdir :: "string \<Rightarrow> mkdir_result"
  sigaction :: bool
  better_copy_file :: "string \<Rightarrow> string \<Rightarrow> bool"
  repodata :: "string \<Rightarrow> bool \<times> (string \<times> Package) list"
  get_suffix :: "CompressionType \<Rightarrow> string"
  get_checksum_name_str :: "ChecksumType \<Rightarrow> string"
  cw_open :: "string \<Rightarrow> bool"
  prepare_db_statements :: "sink \<Rightarrow> bool"
  g_dir_read :: "string \<Rightarrow> string list option"
  is_regular :: "string \<Rightarrow> bool"
  is_dir :: "string \<Rightarrow> bool"
  is_symlink :: "string \<Rightarrow> bool"
  g_pattern_match :: "string \<Rightarrow> string \<Rightarrow> bool"
  out_repo_exists :: "string \<Rightarrow> bool"
  out_repo_read :: "string \<Rightarrow> string list option"
  g_rename :: "string \<Rightarrow> string \<Rightarrow> bool"
  g_rmdir :: "string \<Rightarrow> bool"
  fill_missing_data :: "string \<Rightarrow> RepomdRecord \<Rightarrow> ChecksumType \<Rightarrow> RepomdRecord option"
  process_groupfile :: "string \<Rightarrow> RepomdRecord \<Rightarrow> ChecksumType \<Rightarrow> CompressionType
                         \<Rightarrow> RepomdRecord \<times> RepomdRecord"
  compress_file :: "string \<Rightarrow> CompressionType \<Rightarrow> bool"
  rename_file :: "string \<Rightarrow> RepomdRecord \<Rightarrow> RepomdRecord"
  xml_repomd :: "string \<Rightarrow> RepomdRecord option list \<Rightarrow> string option"
  fopen :: "string \<Rightarrow> bool"

subsection \<open>The signal handler\<close>

text \<open>
  \<open>tmp_repodata_path\<close> is the global the handler reads, \<open>NULL\<close> at the start. The cell
  after a run of events is the value of the last assignment in it.
\<close>

fun tmp_repodata_path_after :: "event list \<Rightarrow> string option \<Rightarrow> string option" where
  "tmp_repodata_path_after [] cell = cell"
| "tmp_repodata_path_after (Assign_tmp_repodata_path v # es) cell = tmp_repodata_path_after es v"
| "tmp_repodata_path_after (_ # es) cell = tmp_repodata_path_after es cell"

text \<open>\<open>sigint_catcher\<close>, given the cell: what it does, and the status it exits with.\<close>

definition sigint_catcher :: "string option \<Rightarrow> event list \<times> int" where
  "sigint_catcher tmp_repodata_path =
     (case tmp_repodata_path of
        Some p \<Rightarrow> ([Remove_dir p], 1)
      | None \<Rightarrow> ([], 1))"

subsection \<open>\<open>allowed_file\<close>\<close>

fun exclude_masks_hit :: "(string \<Rightarrow> string \<Rightarrow> bool) \<Rightarrow> string list \<Rightarrow> string \<Rightarrow> bool" where
  "exclude_masks_hit match [] fname = False"
| "exclude_masks_hit match (element # rest) fname =
     (if match element fname then True else exclude_masks_hit match rest fname)"

definition allowed_file :: "('a Env_scheme) \<Rightarrow> string \<Rightarrow> CmdOptions \<Rightarrow> bool" where
  "allowed_file env fname options =
     (\<not> exclude_masks_hit (g_pattern_match env) (opt_exclude_masks options) fname)"

subsection \<open>The thread pool\<close>

text \<open>
  The pool of GLib, as \<open>main\<close> uses it (an exclusive pool): its limit of threads, the
  tasks queued and not yet run, and the user data the workers share. A pool whose limit
  is 0 is frozen: it runs nothing. Once the limit is positive the queued tasks are run;
  the model runs them one after the other in the order of the queue, each to its end,
  which is one of the schedules of the threads.
\<close>

record GThreadPool =
  pool_max_threads :: int
  pool_queue :: "PoolTask list"
  pool_user_data :: UserData

definition g_thread_pool_new :: "UserData \<Rightarrow> int \<Rightarrow> event list \<times> GThreadPool" where
  "g_thread_pool_new udata max_threads =
     ([G_thread_pool_new max_threads],
      \<lparr>pool_max_threads = max_threads, pool_queue = [], pool_user_data = udata\<rparr>)"

fun run_tasks ::
  "('a Worker_env_scheme) \<Rightarrow> UserData \<Rightarrow> PoolTask list \<Rightarrow> event list \<times> UserData" where
  "run_tasks env udata [] = ([], udata)"
| "run_tasks env udata (task # tasks) =
     (case dumper_thread env udata task of
        (es, udata') \<Rightarrow>
          (case run_tasks env udata' tasks of
             (es', udata'') \<Rightarrow> (map (Worker task) es @ es', udata'')))"

definition dispatch :: "('a Worker_env_scheme) \<Rightarrow> GThreadPool \<Rightarrow> event list \<times> GThreadPool" where
  "dispatch env pool =
     (if 0 < pool_max_threads pool then
        (case run_tasks env (pool_user_data pool) (pool_queue pool) of
           (es, udata') \<Rightarrow> (es, pool\<lparr>pool_queue := [], pool_user_data := udata'\<rparr>))
      else ([], pool))"

definition g_thread_pool_push ::
  "('a Worker_env_scheme) \<Rightarrow> GThreadPool \<Rightarrow> PoolTask \<Rightarrow> event list \<times> GThreadPool" where
  "g_thread_pool_push env pool task =
     (case dispatch env (pool\<lparr>pool_queue := pool_queue pool @ [task]\<rparr>) of
        (es, pool') \<Rightarrow> (G_thread_pool_push task # es, pool'))"

text \<open>A negative limit is refused by an exclusive pool, which keeps its limit.\<close>

definition g_thread_pool_set_max_threads ::
  "('a Worker_env_scheme) \<Rightarrow> GThreadPool \<Rightarrow> int \<Rightarrow> event list \<times> GThreadPool" where
  "g_thread_pool_set_max_threads env pool max_threads =
     (if max_threads < 0 then ([G_thread_pool_set_max_threads max_threads], pool)
      else
        (case dispatch env (pool\<lparr>pool_max_threads := max_threads\<rparr>) of
           (es, pool') \<Rightarrow> (G_thread_pool_set_max_threads max_threads # es, pool')))"

subsection \<open>The walk\<close>

text \<open>
  The variables of the walk: the queue of directories still to scan, the pool, the count
  of tasks pushed, and what was done so far. Signed overflow of the C \<open>int\<close>
  \<open>package_count\<close> is undefined; the count is an unbounded integer here.
\<close>

record Walk =
  sub_dirs :: "string list"
  pool :: GThreadPool
  package_count :: int
  events :: "event list"

definition g_str_has_suffix :: "string \<Rightarrow> string \<Rightarrow> bool" where
  "g_str_has_suffix str suf =
     (length suf \<le> length str \<and> drop (length str - length suf) str = suf)"

text \<open>Pushing a task and counting it, as both modes do.\<close>

definition add_task :: "('a Env_scheme) \<Rightarrow> PoolTask \<Rightarrow> Walk \<Rightarrow> Walk" where
  "add_task env task w =
     (case g_thread_pool_push env (pool w) task of
        (es, pool') \<Rightarrow>
          w\<lparr>pool := pool', package_count := package_count w + 1, events := events w @ es\<rparr>)"

text \<open>The body of the inner loop: one name read from the directory \<open>dirname\<close>.\<close>

definition scan_entry ::
  "('a Env_scheme) \<Rightarrow> CmdOptions \<Rightarrow> string \<Rightarrow> string \<Rightarrow> string \<Rightarrow> Walk \<Rightarrow> Walk" where
  "scan_entry env options indir dirname fname w =
     (let fpath = dirname @ ''/'' @ fname in
      if \<not> g_str_has_suffix fname ''.rpm'' then
        (if \<not> is_regular env fpath \<and> is_dir env fpath
         then w\<lparr>sub_dirs := fpath # sub_dirs w\<rparr>
         else w)
      else if opt_skip_symlinks options \<and> is_symlink env fpath then w
      else
        let repo_relative_path =
              (if length indir < length fpath then drop (length indir) fpath else fname)
        in if allowed_file env repo_relative_path options
           then add_task env \<lparr>full_path = fpath, filename = fname, path = dirname\<rparr> w
           else w)"

fun scan_dir ::
  "('a Env_scheme) \<Rightarrow> CmdOptions \<Rightarrow> string \<Rightarrow> string \<Rightarrow> string list \<Rightarrow> Walk \<Rightarrow> Walk" where
  "scan_dir env options indir dirname [] w = w"
| "scan_dir env options indir dirname (fname # names) w =
     scan_dir env options indir dirname names (scan_entry env options indir dirname fname w)"

text \<open>
  The outer loop pops the head of the queue until the queue is empty. A tree with a cycle
  of links never empties it, so the loop takes fuel, one unit for each directory popped,
  and is \<open>None\<close> when the fuel runs out first.
\<close>

fun walk :: "nat \<Rightarrow> ('a Env_scheme) \<Rightarrow> CmdOptions \<Rightarrow> string \<Rightarrow> Walk \<Rightarrow> Walk option" where
  "walk 0 env options indir w = (if sub_dirs w = [] then Some w else None)"
| "walk (Suc fuel) env options indir w =
     (case sub_dirs w of
        [] \<Rightarrow> Some w
      | dirname # rest \<Rightarrow>
          (case g_dir_read env dirname of
             None \<Rightarrow>
               walk fuel env options indir
                 (w\<lparr>sub_dirs := rest,
                    events := events w @ [G_warning (''Cannot open directory: '' @ dirname)]\<rparr>)
           | Some names \<Rightarrow>
               walk fuel env options indir
                 (scan_dir env options indir dirname names (w\<lparr>sub_dirs := rest\<rparr>))))"

text \<open>
  With a package list: the index of the last \<open>/\<close> of the relative path, looked for from
  the end down to index 1 (the character at the length is the terminator, index 0 is not
  looked at).
\<close>

fun last_slash :: "string \<Rightarrow> nat \<Rightarrow> nat" where
  "last_slash relative_path 0 = 0"
| "last_slash relative_path (Suc x) =
     (if Suc x < length relative_path \<and> relative_path ! Suc x = CHR ''/''
      then Suc x else last_slash relative_path x)"

definition include_pkg :: "('a Env_scheme) \<Rightarrow> CmdOptions \<Rightarrow> string \<Rightarrow> string \<Rightarrow> Walk \<Rightarrow> Walk" where
  "include_pkg env options indir relative_path w =
     (let fpath = indir @ relative_path;
          x = last_slash relative_path (length relative_path);
          fname = (if x = 0 then relative_path else drop (x + 1) relative_path);
          dirname = take x relative_path
      in if allowed_file env fname options
         then add_task env \<lparr>full_path = fpath, filename = fname, path = dirname\<rparr> w
         else w)"

fun use_pkglist :: "('a Env_scheme) \<Rightarrow> CmdOptions \<Rightarrow> string \<Rightarrow> string list \<Rightarrow> Walk \<Rightarrow> Walk" where
  "use_pkglist env options indir [] w = w"
| "use_pkglist env options indir (relative_path # rest) w =
     use_pkglist env options indir rest (include_pkg env options indir relative_path w)"

text \<open>
  The whole of the section: a walk from the input directory without its final \<open>/\<close>, or
  the package list when one is given.
\<close>

definition collect_packages ::
  "nat \<Rightarrow> ('a Env_scheme) \<Rightarrow> CmdOptions \<Rightarrow> string \<Rightarrow> GThreadPool \<Rightarrow> Walk option" where
  "collect_packages fuel env options indir p =
     (let w0 = \<lparr>sub_dirs = [], pool = p, package_count = 0, events = []\<rparr> in
      if opt_include_pkgs options = [] then
        walk fuel env options indir (w0\<lparr>sub_dirs := [butlast indir]\<rparr>)
      else Some (use_pkglist env options indir (opt_include_pkgs options) w0))"

subsection \<open>The sections of \<open>main\<close>\<close>

text \<open>
  A section of \<open>main\<close> gives what it did and either the status the process exits with
  there (\<open>Inl\<close>) or the values the next section needs (\<open>Inr\<close>).
\<close>

definition and_then ::
  "event list \<times> (int + 'a) \<Rightarrow> ('a \<Rightarrow> event list \<times> (int + 'b)) \<Rightarrow> event list \<times> (int + 'b)" where
  "and_then m f =
     (case m of
        (es, Inl status) \<Rightarrow> (es, Inl status)
      | (es, Inr v) \<Rightarrow> (case f v of (es', r) \<Rightarrow> (es @ es', r)))"

text \<open>Arguments parsing, pre-check, the input directory, \<open>check_arguments\<close>.\<close>

definition parse_and_check :: "('a Env_scheme) \<Rightarrow> event list \<times> (int + CmdOptions \<times> string)" where
  "parse_and_check env =
     (case parse_arguments env of
        None \<Rightarrow> ([], Inl 1)
      | Some options \<Rightarrow>
          if opt_version options then ([Call ''printf'' [''Version'']], Inl 0)
          else if length (argv env) \<noteq> 2 then
            ([Call ''fprintf'' [''Must specify exactly one directory to index.'']], Inl 1)
          else
            let indir = normalize_dir_path env (argv env ! 1);
                options' = options\<lparr>opt_input_dir := indir\<rparr>
            in if \<not> g_file_test_input_dir env indir then
                 ([G_warning (''Directory '' @ indir @ '' must exist'')], Inl 1)
               else
                 (case check_arguments env options' of
                    None \<Rightarrow> ([], Inl 1)
                  | Some options'' \<Rightarrow> ([], Inr (options'', indir))))"

text \<open>The paths of the input and output repositories.\<close>

record Dirs =
  in_dir :: string
  in_repo :: string
  out_dir :: string
  out_repo :: string
  tmp_out_repo :: string

definition set_paths :: "('a Env_scheme) \<Rightarrow> CmdOptions \<Rightarrow> string \<Rightarrow> Dirs" where
  "set_paths env options indir =
     (case opt_outputdir options of
        Some outputdir \<Rightarrow>
          let outdir = normalize_dir_path env outputdir in
          \<lparr>in_dir = indir, in_repo = indir @ ''repodata/'', out_dir = outdir,
           out_repo = outdir @ ''repodata/'', tmp_out_repo = outdir @ ''.repodata/''\<rparr>
      | None \<Rightarrow>
          \<lparr>in_dir = indir, in_repo = indir @ ''repodata/'', out_dir = indir,
           out_repo = indir @ ''repodata/'', tmp_out_repo = indir @ ''.repodata/''\<rparr>)"

text \<open>
  Creating the staging directory, then the assignment of the global and the installation
  of the handler.
\<close>

definition create_staging :: "('a Env_scheme) \<Rightarrow> Dirs \<Rightarrow> event list \<times> (int + unit)" where
  "create_staging env dirs =
     (case g_mkdir env (tmp_out_repo dirs) of
        MKDIR_EEXIST \<Rightarrow>
          ([G_mkdir (tmp_out_repo dirs) MKDIR_EEXIST,
            G_critical (''Temporary repodata directory: '' @ tmp_out_repo dirs
                        @ '' already exists!'')], Inl 1)
      | MKDIR_ERROR \<Rightarrow>
          ([G_mkdir (tmp_out_repo dirs) MKDIR_ERROR,
            G_critical (''Error while creating temporary repodata directory ''
                        @ tmp_out_repo dirs)], Inl 1)
      | MKDIR_OK \<Rightarrow>
          if sigaction env then
            ([G_mkdir (tmp_out_repo dirs) MKDIR_OK,
              Assign_tmp_repodata_path (Some (tmp_out_repo dirs)),
              Sigaction_SIGINT True], Inr ())
          else
            ([G_mkdir (tmp_out_repo dirs) MKDIR_OK,
              Assign_tmp_repodata_path (Some (tmp_out_repo dirs)),
              Sigaction_SIGINT False, G_critical ''sigaction()''], Inl 1))"

definition copy_groupfile ::
  "('a Env_scheme) \<Rightarrow> CmdOptions \<Rightarrow> Dirs \<Rightarrow> event list \<times> string option" where
  "copy_groupfile env options dirs =
     (case opt_groupfile_fullpath options of
        None \<Rightarrow> ([], None)
      | Some groupfile_fullpath \<Rightarrow>
          let groupfile = tmp_out_repo dirs @ get_filename env groupfile_fullpath in
          if better_copy_file env groupfile_fullpath groupfile then
            ([Call ''better_copy_file'' [groupfile_fullpath, groupfile]], Some groupfile)
          else
            ([Call ''better_copy_file'' [groupfile_fullpath, groupfile],
              G_critical (''Error while copy '' @ groupfile_fullpath @ '' -> '' @ groupfile)],
             Some groupfile))"

text \<open>
  Modelled from the spec: \<open>locate_and_load_xml_metadata\<close> is defined in
  \<open>load_metadata.c\<close>, which is not among the sources. By the spec, loading a repository
  produces a mapping from package filename to record, into the table it is given; sources
  loaded later overwrite earlier ones (``last writer wins during load''), and a source
  that fails to load leaves whatever was loaded.
\<close>

definition locate_and_load_xml_metadata ::
  "('a Env_scheme) \<Rightarrow> (string \<rightharpoonup> Package) \<Rightarrow> string \<Rightarrow> bool \<times> (string \<rightharpoonup> Package)" where
  "locate_and_load_xml_metadata env hashtable repopath =
     (fst (repodata env repopath),
      foldl (\<lambda>ht (key, pkg). ht(key \<mapsto> pkg)) hashtable (snd (repodata env repopath)))"

fun load_update_md_paths ::
  "('a Env_scheme) \<Rightarrow> (string \<rightharpoonup> Package) \<Rightarrow> string list \<Rightarrow> event list \<times> (string \<rightharpoonup> Package)" where
  "load_update_md_paths env ht [] = ([], ht)"
| "load_update_md_paths env ht (p # rest) =
     (case locate_and_load_xml_metadata env ht p of
        (ret, ht') \<Rightarrow>
          (case load_update_md_paths env ht' rest of
             (es, ht'') \<Rightarrow>
               (if ret then Locate_and_load_xml_metadata p True # es
                else Locate_and_load_xml_metadata p False
                     # G_warning (''Old metadata from md-path '' @ p @ '' - loading failed'')
                     # es,
                ht'')))"

text \<open>Load old metadata if \<open>--update\<close>; \<open>None\<close> is the \<open>NULL\<close> table.\<close>

definition load_old_metadata ::
  "('a Env_scheme) \<Rightarrow> CmdOptions \<Rightarrow> Dirs \<Rightarrow> event list \<times> (string \<rightharpoonup> Package) option" where
  "load_old_metadata env options dirs =
     (if opt_update options then
        let (es1, ht1) =
              (if opt_outputdir options \<noteq> None then
                 (case locate_and_load_xml_metadata env Map.empty (out_dir dirs) of
                    (ret, ht) \<Rightarrow> ([Locate_and_load_xml_metadata (out_dir dirs) ret], ht))
               else ([], Map.empty));
            (es2, ht2) =
              (case locate_and_load_xml_metadata env ht1 (in_dir dirs) of
                 (ret, ht) \<Rightarrow> ([Locate_and_load_xml_metadata (in_dir dirs) ret], ht));
            (es3, ht3) = load_update_md_paths env ht2 (opt_l_update_md_paths options)
        in (es1 @ es2 @ es3, Some ht3)
      else ([], None))"

text \<open>Setup compression types.\<close>

definition sqlite_compression_of :: "CmdOptions \<Rightarrow> CompressionType" where
  "sqlite_compression_of options =
     (if opt_xz_compression options then XZ_COMPRESSION
      else if opt_compression_type options \<noteq> UNKNOWN_COMPRESSION then opt_compression_type options
      else BZ2_COMPRESSION)"

definition groupfile_compression_of :: "CmdOptions \<Rightarrow> CompressionType" where
  "groupfile_compression_of options =
     (if opt_xz_compression options then XZ_COMPRESSION
      else if opt_compression_type options \<noteq> UNKNOWN_COMPRESSION then opt_compression_type options
      else GZ_COMPRESSION)"

text \<open>Create and open new compressed files.\<close>

definition open_xml_files :: "('a Env_scheme) \<Rightarrow> Dirs \<Rightarrow> event list \<times> (int + unit)" where
  "open_xml_files env dirs =
     (let pri_xml_filename = tmp_out_repo dirs @ ''/primary.xml.gz'';
          fil_xml_filename = tmp_out_repo dirs @ ''/filelists.xml.gz'';
          oth_xml_filename = tmp_out_repo dirs @ ''/other.xml.gz''
      in
      if \<not> cw_open env pri_xml_filename then
        ([Cw_open PRI pri_xml_filename False,
          G_critical (''Cannot open file: '' @ pri_xml_filename)], Inl 1)
      else if \<not> cw_open env fil_xml_filename then
        ([Cw_open PRI pri_xml_filename True, Cw_open FIL fil_xml_filename False,
          G_critical (''Cannot open file: '' @ fil_xml_filename), Cw_close PRI], Inl 1)
      else if \<not> cw_open env oth_xml_filename then
        ([Cw_open PRI pri_xml_filename True, Cw_open FIL fil_xml_filename True,
          Cw_open OTH oth_xml_filename False,
          G_critical (''Cannot open file: '' @ oth_xml_filename), Cw_close FIL, Cw_close PRI],
         Inl 1)
      else
        ([Cw_open PRI pri_xml_filename True, Cw_open FIL fil_xml_filename True,
          Cw_open OTH oth_xml_filename True], Inr ()))"

text \<open>Open sqlite databases (unless \<open>--no-database\<close>), then init the package parser.\<close>

definition open_databases :: "CmdOptions \<Rightarrow> Dirs \<Rightarrow> event list" where
  "open_databases options dirs =
     (if \<not> opt_no_database options then
        [Call ''open_primary_db'' [tmp_out_repo dirs @ ''/primary.sqlite''],
         Call ''open_filelists_db'' [tmp_out_repo dirs @ ''/filelists.sqlite''],
         Call ''open_other_db'' [tmp_out_repo dirs @ ''/other.sqlite''],
         Call ''prepare_primary_db_statements'' [],
         Call ''prepare_filelists_db_statements'' [],
         Call ''prepare_other_db_statements'' []]
      else [])
     @ [Call ''package_parser_init'' []]"

text \<open>
  Thread pool - User data initialization. \<open>package_count\<close> is assigned only before the
  pool is started; until then it is 0 here.
\<close>

definition init_user_data ::
  "('a Env_scheme) \<Rightarrow> CmdOptions \<Rightarrow> Dirs \<Rightarrow> (string \<rightharpoonup> Package) option \<Rightarrow> UserData" where
  "init_user_data env options dirs old_md =
     \<lparr>ud_pri_statements = (\<not> opt_no_database options \<and> prepare_db_statements env PRI),
      ud_fil_statements = (\<not> opt_no_database options \<and> prepare_db_statements env FIL),
      ud_oth_statements = (\<not> opt_no_database options \<and> prepare_db_statements env OTH),
      ud_changelog_limit = opt_changelog_limit options,
      ud_location_base = opt_location_base options,
      ud_repodir_name_len = int (length (in_dir dirs)),
      ud_checksum_type_str = get_checksum_name_str env (opt_checksum_type options),
      ud_checksum_type = opt_checksum_type options,
      ud_quiet = opt_quiet options,
      ud_verbose = opt_verbose options,
      ud_skip_symlinks = opt_skip_symlinks options,
      ud_package_count = 0,
      ud_skip_stat = opt_skip_stat options,
      ud_old_metadata = old_md\<rparr>"

text \<open>What \<open>main\<close> holds once the pool is created.\<close>

record Main_vars =
  cmd_options :: CmdOptions
  dirs_of :: Dirs
  groupfile_of :: "string option"
  old_metadata_of :: "(string \<rightharpoonup> Package) option"
  pool_of :: GThreadPool

text \<open>
  From the copy of the group file to the creation of the pool, which is created with no
  thread.
\<close>

definition after_staging ::
  "('a Env_scheme) \<Rightarrow> CmdOptions \<Rightarrow> Dirs \<Rightarrow> event list \<times> (int + Main_vars)" where
  "after_staging env options dirs =
     (case copy_groupfile env options dirs of (es_g, groupfile) \<Rightarrow>
      case load_old_metadata env options dirs of (es_l, old_md) \<Rightarrow>
      and_then (es_g @ es_l, Inr ()) (\<lambda>_.
        and_then (open_xml_files env dirs) (\<lambda>_.
          case g_thread_pool_new (init_user_data env options dirs old_md) 0 of
            (es_p, p) \<Rightarrow>
              (open_databases options dirs @ es_p,
               Inr \<lparr>cmd_options = options, dirs_of = dirs, groupfile_of = groupfile,
                    old_metadata_of = old_md, pool_of = p\<rparr>))))"

text \<open>Everything from the start of \<open>main\<close> to the creation of the pool.\<close>

definition startup :: "('a Env_scheme) \<Rightarrow> event list \<times> (int + Main_vars)" where
  "startup env =
     and_then (parse_and_check env) (\<lambda>(options, indir).
       and_then (create_staging env (set_paths env options indir))
         (\<lambda>_. after_staging env options (set_paths env options indir)))"

text \<open>Write XML header: the same count in the three documents.\<close>

definition write_headers :: "int \<Rightarrow> event list" where
  "write_headers count =
     [Cw_printf_header PRI count, Cw_printf_header FIL count, Cw_printf_header OTH count]"

text \<open>
  Start pool and wait until it is finished. The workers read the user data through a
  pointer, so the count assigned here is in the pool's user data. Freeing a pool that is
  still frozen returns at once and its queued tasks never run.
\<close>

definition run_pool :: "('a Env_scheme) \<Rightarrow> CmdOptions \<Rightarrow> Walk \<Rightarrow> event list \<times> GThreadPool" where
  "run_pool env options w =
     (let p = (pool w)\<lparr>pool_user_data := (pool_user_data (pool w))\<lparr>ud_package_count := package_count w\<rparr>\<rparr>
      in case g_thread_pool_set_max_threads env p (opt_workers options) of
           (es, p') \<Rightarrow> (es @ [G_thread_pool_free], p'))"

text \<open>The closing tags, closing the files, closing the databases.\<close>

definition close_sinks :: "event list" where
  "close_sinks =
     [Cw_puts_footer PRI, Cw_puts_footer FIL, Cw_puts_footer OTH,
      Cw_close PRI, Cw_close FIL, Cw_close OTH,
      Call ''destroy_primary_db_statements'' [],
      Call ''destroy_filelists_db_statements'' [],
      Call ''destroy_other_db_statements'' [],
      Call ''close_primary_db'' [], Call ''close_filelists_db'' [], Call ''close_other_db'' []]"

text \<open>Move files from \<open>out_repo\<close> into \<open>tmp_out_repo\<close>.\<close>

fun move_files :: "('a Env_scheme) \<Rightarrow> Dirs \<Rightarrow> string list \<Rightarrow> event list" where
  "move_files env dirs [] = []"
| "move_files env dirs (fname # names) =
     (let fpath = out_repo dirs @ fname;
          new_full_path = tmp_out_repo dirs @ fname
      in if g_rename env fpath new_full_path
         then G_rename fpath new_full_path True # move_files env dirs names
         else G_rename fpath new_full_path False
              # G_critical (''Cannot move file '' @ fpath @ '' -> '' @ new_full_path)
              # move_files env dirs names)"

definition move_old_repodata :: "('a Env_scheme) \<Rightarrow> Dirs \<Rightarrow> event list \<times> (int + unit)" where
  "move_old_repodata env dirs =
     (if out_repo_exists env (out_repo dirs) then
        (case out_repo_read env (out_repo dirs) of
           None \<Rightarrow>
             ([Call ''remove_metadata'' [out_dir dirs], G_dir_open (out_repo dirs) False,
               G_critical (''Cannot open directory: '' @ out_repo dirs)], Inl 1)
         | Some names \<Rightarrow>
             (Call ''remove_metadata'' [out_dir dirs] # G_dir_open (out_repo dirs) True
              # move_files env dirs names
              @ (if g_rmdir env (out_repo dirs)
                 then [Call ''g_rmdir'' [out_repo dirs]]
                 else [Call ''g_rmdir'' [out_repo dirs],
                       G_critical (''Cannot remove '' @ out_repo dirs)]),
              Inr ()))
      else ([], Inr ()))"

text \<open>Rename \<open>tmp_out_repo\<close> to \<open>out_repo\<close>.\<close>

definition swap_repodata :: "('a Env_scheme) \<Rightarrow> Dirs \<Rightarrow> event list" where
  "swap_repodata env dirs =
     (if g_rename env (tmp_out_repo dirs) (out_repo dirs)
      then [G_rename (tmp_out_repo dirs) (out_repo dirs) True]
      else [G_rename (tmp_out_repo dirs) (out_repo dirs) False,
            G_critical (''Cannot rename '' @ tmp_out_repo dirs @ '' -> '' @ out_repo dirs)])"

text \<open>
  One call of \<open>fill_missing_data\<close>, whose result \<open>main\<close> does not look at: the record as
  the call leaves it.
\<close>

definition fill_record ::
  "('a Env_scheme) \<Rightarrow> CmdOptions \<Rightarrow> Dirs \<Rightarrow> RepomdRecord \<Rightarrow> event list \<times> RepomdRecord" where
  "fill_record env options dirs r =
     (case fill_missing_data env (out_dir dirs) r (opt_checksum_type options) of
        None \<Rightarrow> ([Fill_missing_data (rr_location_href r) False], r)
      | Some r' \<Rightarrow> ([Fill_missing_data (rr_location_href r) True], r'))"

fun fill_records ::
  "('a Env_scheme) \<Rightarrow> CmdOptions \<Rightarrow> Dirs \<Rightarrow> RepomdRecord list \<Rightarrow> event list \<times> RepomdRecord list" where
  "fill_records env options dirs [] = ([], [])"
| "fill_records env options dirs (r # rs) =
     (case fill_record env options dirs r of
        (es, r') \<Rightarrow>
          (case fill_records env options dirs rs of
             (es', rs') \<Rightarrow> (es @ es', r' # rs')))"

text \<open>Groupfile: its record and the record of its compressed copy.\<close>

definition groupfile_records ::
  "('a Env_scheme) \<Rightarrow> CmdOptions \<Rightarrow> Dirs \<Rightarrow> string option \<Rightarrow> event list \<times> RepomdRecord option list" where
  "groupfile_records env options dirs groupfile =
     (case groupfile of
        None \<Rightarrow> ([], [None, None])
      | Some g \<Rightarrow>
          let groupfile_name = ''repodata/'' @ get_filename env g in
          (case process_groupfile env (out_dir dirs) (new_repomdrecord groupfile_name)
                  (opt_checksum_type options) (groupfile_compression_of options) of
             (groupfile_rec, compressed_groupfile_rec) \<Rightarrow>
               ([Call ''process_groupfile'' [out_dir dirs, groupfile_name]],
                [Some groupfile_rec, Some compressed_groupfile_rec])))"

text \<open>
  Sqlite db: the checksums of the XML files go into the databases, the databases are
  compressed and the plain ones removed, and the records of the compressed ones filled.
\<close>

fun compress_dbs :: "('a Env_scheme) \<Rightarrow> CmdOptions \<Rightarrow> string list \<Rightarrow> event list" where
  "compress_dbs env options [] = []"
| "compress_dbs env options (db # dbs) =
     Compress_file db (compress_file env db (sqlite_compression_of options))
     # compress_dbs env options dbs"

definition database_records ::
  "('a Env_scheme) \<Rightarrow> CmdOptions \<Rightarrow> Dirs \<Rightarrow> RepomdRecord list \<Rightarrow> event list \<times> RepomdRecord option list" where
  "database_records env options dirs xml_recs =
     (if \<not> opt_no_database options then
        let suffix = get_suffix env (sqlite_compression_of options);
            tmp_db_paths = [out_dir dirs @ ''repodata/primary.sqlite'',
                            out_dir dirs @ ''repodata/filelists.sqlite'',
                            out_dir dirs @ ''repodata/other.sqlite'']
        in (case fill_records env options dirs
                   [new_repomdrecord (''repodata/primary.sqlite'' @ suffix),
                    new_repomdrecord (''repodata/filelists.sqlite'' @ suffix),
                    new_repomdrecord (''repodata/other.sqlite'' @ suffix)] of
              (es, db_recs) \<Rightarrow>
                (map (\<lambda>db. Call ''sqlite3_open'' [db]) tmp_db_paths
                 @ map (\<lambda>r. Call ''dbinfo_update'' [case rr_checksum r of None \<Rightarrow> [] | Some c \<Rightarrow> c])
                     xml_recs
                 @ [Call ''sqlite3_close'' [], Call ''sqlite3_close'' [], Call ''sqlite3_close'' []]
                 @ compress_dbs env options tmp_db_paths
                 @ map (\<lambda>db. Call ''remove'' [db]) tmp_db_paths
                 @ es,
                 map Some db_recs))
      else ([], [None, None, None]))"

text \<open>Add checksums into files names: \<open>rename_file\<close> on each record there is.\<close>

fun rename_files ::
  "('a Env_scheme) \<Rightarrow> Dirs \<Rightarrow> RepomdRecord option list \<Rightarrow> event list \<times> RepomdRecord option list" where
  "rename_files env dirs [] = ([], [])"
| "rename_files env dirs (None # rs) =
     (case rename_files env dirs rs of (es, rs') \<Rightarrow> (es, None # rs'))"
| "rename_files env dirs (Some r # rs) =
     (case rename_files env dirs rs of
        (es, rs') \<Rightarrow>
          (Call ''rename_file'' [out_dir dirs, rr_location_href r] # es,
           Some (rename_file env (out_dir dirs) r) # rs'))"

text \<open>
  Create repomd records for each file, up to the generated text of \<open>repomd.xml\<close>
  (\<open>None\<close> for \<open>NULL\<close>).
\<close>

definition make_repomd ::
  "('a Env_scheme) \<Rightarrow> CmdOptions \<Rightarrow> Dirs \<Rightarrow> string option \<Rightarrow> event list \<times> string option" where
  "make_repomd env options dirs groupfile =
     (case fill_records env options dirs
             [new_repomdrecord ''repodata/primary.xml.gz'',
              new_repomdrecord ''repodata/filelists.xml.gz'',
              new_repomdrecord ''repodata/other.xml.gz''] of
        (es_x, xml_recs) \<Rightarrow>
     case groupfile_records env options dirs groupfile of
        (es_g, group_recs) \<Rightarrow>
     case database_records env options dirs xml_recs of
        (es_d, db_recs) \<Rightarrow>
     case (if opt_unique_md_filenames options
           then rename_files env dirs (map Some xml_recs @ db_recs @ group_recs)
           else ([], map Some xml_recs @ db_recs @ group_recs)) of
        (es_r, recs) \<Rightarrow>
          (es_x @ es_g @ es_d @ es_r
           @ [Xml_repomd (xml_repomd env (out_dir dirs) recs \<noteq> None)],
           xml_repomd env (out_dir dirs) recs))"

text \<open>Write \<open>repomd.xml\<close>: \<open>return 1\<close> when it cannot be opened or was not generated.\<close>

definition write_repomd ::
  "('a Env_scheme) \<Rightarrow> Dirs \<Rightarrow> string option \<Rightarrow> event list \<times> (int + unit)" where
  "write_repomd env dirs repomd_xml =
     (let repomd_path = out_repo dirs @ ''repomd.xml'' in
      case (fopen env repomd_path, repomd_xml) of
        (True, Some xml) \<Rightarrow>
          ([Fopen repomd_path True, Fputs_repomd xml, Call ''fclose'' []], Inr ())
      | (opened, _) \<Rightarrow>
          ([Fopen repomd_path opened, G_critical ''Generate of repomd.xml failed''], Inl 1))"

text \<open>Clean up, and \<open>return 0\<close>.\<close>

definition clean_up :: "(string \<rightharpoonup> Package) option \<Rightarrow> event list" where
  "clean_up old_md =
     (if old_md \<noteq> None then [Call ''destroy_metadata_hashtable'' []] else [])
     @ [Assign_tmp_repodata_path None,
        Call ''free_options'' [], Call ''package_parser_shutdown'' []]"

text \<open>Everything after the pool has finished, up to the writing of \<open>repomd.xml\<close>.\<close>

definition publish :: "('a Env_scheme) \<Rightarrow> Main_vars \<Rightarrow> event list \<times> (int + unit)" where
  "publish env vars =
     and_then (close_sinks, Inr ()) (\<lambda>_.
       and_then (move_old_repodata env (dirs_of vars)) (\<lambda>_.
         and_then (swap_repodata env (dirs_of vars), Inr ()) (\<lambda>_.
           case make_repomd env (cmd_options vars) (dirs_of vars) (groupfile_of vars) of
             (es, repomd_xml) \<Rightarrow>
               and_then (es, Inr ()) (\<lambda>_. write_repomd env (dirs_of vars) repomd_xml))))"

text \<open>Everything after the pool has finished.\<close>

definition finalize :: "('a Env_scheme) \<Rightarrow> Main_vars \<Rightarrow> event list \<times> (int + unit)" where
  "finalize env vars =
     and_then (publish env vars) (\<lambda>_. (clean_up (old_metadata_of vars), Inr ()))"

text \<open>The status a run that reaches the end of a section exits with.\<close>

fun exit_status :: "int + unit \<Rightarrow> int" where
  "exit_status (Inl status) = status"
| "exit_status (Inr _) = 0"

text \<open>
  \<open>main\<close>: what the process does and the status it exits with; \<open>None\<close> when the walk
  does not end within the fuel.
\<close>

definition main :: "nat \<Rightarrow> ('a Env_scheme) \<Rightarrow> (event list \<times> int) option" where
  "main fuel env =
     (case startup env of
        (es, Inl status) \<Rightarrow> Some (es, status)
      | (es, Inr vars) \<Rightarrow>
          (case collect_packages fuel env (cmd_options vars) (in_dir (dirs_of vars))
                  (pool_of vars) of
             None \<Rightarrow> None
           | Some w \<Rightarrow>
               (case run_pool env (cmd_options vars) w of
                  (es_p, p) \<Rightarrow>
                    (case finalize env vars of
                       (es_f, r) \<Rightarrow>
                         Some (es @ events w @ write_headers (package_count w) @ es_p @ es_f,
                               exit_status r)))))"

section \<open>Reading a run\<close>

text \<open>What the claims speak of, read off what a run did.\<close>

fun is_Worker :: "event \<Rightarrow> bool" where
  "is_Worker (Worker _ _) = True"
| "is_Worker _ = False"

text \<open>The tasks pushed to the pool, in order.\<close>

fun pushed_tasks :: "event list \<Rightarrow> PoolTask list" where
  "pushed_tasks [] = []"
| "pushed_tasks (G_thread_pool_push task # es) = task # pushed_tasks es"
| "pushed_tasks (_ # es) = pushed_tasks es"

text \<open>The counts written as \<open>packages="N"\<close> into the preamble of a document.\<close>

fun declared_packages :: "sink \<Rightarrow> event list \<Rightarrow> int list" where
  "declared_packages s [] = []"
| "declared_packages s (Cw_printf_header s' n # es) =
     (if s' = s then n # declared_packages s es else declared_packages s es)"
| "declared_packages s (_ # es) = declared_packages s es"

text \<open>The number of package fragments written into a document.\<close>

fun packages_written :: "sink \<Rightarrow> event list \<Rightarrow> nat" where
  "packages_written s [] = 0"
| "packages_written s (Worker _ (Cw_puts_package s' _) # es) =
     (if s' = s then Suc (packages_written s es) else packages_written s es)"
| "packages_written s (_ # es) = packages_written s es"

text \<open>
  The number of tasks a worker dropped: \<open>stat\<close> failed, or the package could not be
  read.
\<close>

fun tasks_dropped :: "event list \<Rightarrow> nat" where
  "tasks_dropped [] = 0"
| "tasks_dropped (Worker _ (Stat_failed _) # es) = Suc (tasks_dropped es)"
| "tasks_dropped (Worker _ (Cannot_read_package _) # es) = Suc (tasks_dropped es)"
| "tasks_dropped (_ # es) = tasks_dropped es"

text \<open>The limits given to \<open>g_thread_pool_set_max_threads\<close>.\<close>

fun max_threads_set :: "event list \<Rightarrow> int list" where
  "max_threads_set [] = []"
| "max_threads_set (G_thread_pool_set_max_threads n # es) = n # max_threads_set es"
| "max_threads_set (_ # es) = max_threads_set es"

text \<open>Each event of a run with the value of \<open>tmp_repodata_path\<close> once it is done.\<close>

fun with_cell :: "event list \<Rightarrow> string option \<Rightarrow> (event \<times> string option) list" where
  "with_cell [] cell = []"
| "with_cell (e # es) cell =
     (e, tmp_repodata_path_after [e] cell) # with_cell es (tmp_repodata_path_after [e] cell)"

text \<open>What a run did, and the status it exited with.\<close>

definition trace_of :: "(event list \<times> int) option \<Rightarrow> event list" where
  "trace_of r = (case r of None \<Rightarrow> [] | Some (tr, _) \<Rightarrow> tr)"

definition status_of :: "(event list \<times> int) option \<Rightarrow> int option" where
  "status_of r = map_option snd r"

text \<open>The repositories whose old metadata were loaded, in order.\<close>

fun loaded_paths :: "event list \<Rightarrow> string list" where
  "loaded_paths [] = []"
| "loaded_paths (Locate_and_load_xml_metadata p _ # es) = p # loaded_paths es"
| "loaded_paths (_ # es) = loaded_paths es"

text \<open>
  The kinds of events that the sections of \<open>main\<close> are told apart by; \<open>K_final\<close> are
  those only the last sections make, \<open>K_plain\<close> all that are of no other kind.
\<close>

datatype kind =
  K_plain | K_mkdir | K_assign | K_push | K_header | K_set_max | K_worker | K_rename | K_final

fun kind_of :: "event \<Rightarrow> kind" where
  "kind_of (G_mkdir _ _) = K_mkdir"
| "kind_of (Assign_tmp_repodata_path _) = K_assign"
| "kind_of (G_thread_pool_push _) = K_push"
| "kind_of (Cw_printf_header _ _) = K_header"
| "kind_of (G_thread_pool_set_max_threads _) = K_set_max"
| "kind_of (Worker _ _) = K_worker"
| "kind_of (G_rename _ _ _) = K_rename"
| "kind_of (Cw_puts_footer _) = K_final"
| "kind_of (G_dir_open _ _) = K_final"
| "kind_of (Xml_repomd _) = K_final"
| "kind_of (Fopen _ _) = K_final"
| "kind_of (Fputs_repomd _) = K_final"
| "kind_of _ = K_plain"

definition only :: "kind set \<Rightarrow> event list \<Rightarrow> bool" where
  "only K es = (\<forall>e \<in> set es. kind_of e \<in> K)"

text \<open>
  What holds of the variables of the walk while it runs: the pool is frozen, the walk has
  only pushed tasks and warned, the tasks pushed are the queue of the pool, and the count
  is their number.
\<close>

definition walk_inv :: "Walk \<Rightarrow> bool" where
  "walk_inv w =
     (pool_max_threads (pool w) = 0
      \<and> only {K_plain, K_push} (events w)
      \<and> pushed_tasks (events w) = pool_queue (pool w)
      \<and> package_count w = int (length (pool_queue (pool w))))"

section \<open>An example repository\<close>

text \<open>
  The repository \<open>/repo/\<close> holds the package \<open>a.rpm\<close>, the file \<open>broken.rpm\<close> that
  the header parser cannot read, and \<open>link\<close>, a symbolic link to a directory that holds
  \<open>b.rpm\<close>. Its old metadata know \<open>a.rpm\<close>, with the time and size the file still has.
  It is indexed with \<open>--update --skip-symlinks --no-database --workers 2\<close>.
\<close>

definition example_package :: "string \<Rightarrow> Package" where
  "example_package n =
     \<lparr>pkgId = ''id-'' @ n, name = n, arch = ''noarch'', version = ''1'', epoch = ''0'',
      release = ''1'', checksum_type = ''sha256'', time_file = 100, time_build = 90,
      size_package = 2048, location_href = ''old/'' @ n, location_base = None,
      requires = [], provides = [n], files = [], changelogs = []\<rparr>"

definition example_options :: CmdOptions where
  "example_options =
     \<lparr>opt_version = False, opt_input_dir = [], opt_outputdir = None, opt_quiet = False,
      opt_verbose = False, opt_groupfile_fullpath = None, opt_update = True,
      opt_l_update_md_paths = [], opt_compression_type = UNKNOWN_COMPRESSION,
      opt_xz_compression = False, opt_no_database = True, opt_changelog_limit = 10,
      opt_location_base = None, opt_checksum_type = PKG_CHECKSUM_SHA256,
      opt_skip_symlinks = True, opt_skip_stat = False, opt_include_pkgs = [],
      opt_exclude_masks = [], opt_workers = 2, opt_unique_md_filenames = False\<rparr>"

definition example_env :: Env where
  "example_env =
     \<lparr>stat = (\<lambda>p. if p = ''/repo/a.rpm'' then Some \<lparr>st_mtime = 100, st_size = 2048\<rparr>
                   else Some \<lparr>st_mtime = 7, st_size = 512\<rparr>),
      package_from_file = (\<lambda>p t href base limit.
         if p = ''/repo/broken.rpm'' then None
         else Some ((example_package ''b.rpm'')\<lparr>location_href := href, location_base := base\<rparr>)),
      xml_dump = (\<lambda>p. \<lparr>primary = ''<package>'', filelists = ''<package>'',
                         other = ''<package>''\<rparr>),
      interference = (\<lambda>t. \<lparr>href_seen = (\<lambda>pt. None), href_left = ''''\<rparr>),
      parse_arguments = Some example_options,
      argv = [''createrepo_c'', ''/repo''],
      get_filename = (\<lambda>p. p),
      normalize_dir_path = (\<lambda>d. d @ ''/''),
      g_file_test_input_dir = (\<lambda>d. True),
      check_arguments = Some,
      g_mkdir = (\<lambda>d. MKDIR_OK),
      sigaction = True,
      better_copy_file = (\<lambda>a b. True),
      repodata = (\<lambda>d. if d = ''/repo/'' then (True, [(''a.rpm'', example_package ''a.rpm'')])
                       else (False, [])),
      get_suffix = (\<lambda>c. ''.bz2''),
      get_checksum_name_str = (\<lambda>t. ''sha256''),
      cw_open = (\<lambda>f. True),
      prepare_db_statements = (\<lambda>s. True),
      g_dir_read = (\<lambda>d. if d = ''/repo'' then Some [''a.rpm'', ''broken.rpm'', ''link'']
                         else if d = ''/repo/link'' then Some [''b.rpm'']
                         else None),
      is_regular = (\<lambda>p. p \<noteq> ''/repo/link''),
      is_dir = (\<lambda>p. p = ''/repo/link''),
      is_symlink = (\<lambda>p. p = ''/repo/link''),
      g_pattern_match = (\<lambda>m f. False),
      out_repo_exists = (\<lambda>d. False),
      out_repo_read = (\<lambda>d. None),
      g_rename = (\<lambda>a b. True),
      g_rmdir = (\<lambda>d. True),
      fill_missing_data = (\<lambda>d r t. Some (r\<lparr>rr_checksum := Some ''c0ffee''\<rparr>)),
      process_groupfile = (\<lambda>d r t c. (r, r)),
      compress_file = (\<lambda>f c. True),
      rename_file = (\<lambda>d r. r),
      xml_repomd = (\<lambda>d rs. Some ''<repomd>''),
      fopen = (\<lambda>f. True)\<rparr>"

text \<open>The user data and the task of \<open>a.rpm\<close> in that run.\<close>

definition example_udata :: UserData where
  "example_udata =
     \<lparr>ud_pri_statements = False, ud_fil_statements = False, ud_oth_statements = False,
      ud_changelog_limit = 10, ud_location_base = None, ud_repodir_name_len = 6,
      ud_checksum_type_str = ''sha256'', ud_checksum_type = PKG_CHECKSUM_SHA256,
      ud_quiet = False, ud_verbose = False, ud_skip_symlinks = True, ud_package_count = 3,
      ud_skip_stat = False,
      ud_old_metadata = Some [''a.rpm'' \<mapsto> example_package ''a.rpm'']\<rparr>"

definition example_task :: PoolTask where
  "example_task = \<lparr>full_path = ''/repo/a.rpm'', filename = ''a.rpm'', path = ''/repo''\<rparr>"

text \<open>
  The same file where \<open>stat\<close> fails, where the file is newer than its record, and where
  another worker that hit the record of \<open>a.rpm\<close> for \<open>/repo/sub/a.rpm\<close> writes its
  \<open>location_href\<close> after the serializer has run and before the inserts.
\<close>

definition unreadable_env :: Env where
  "unreadable_env = example_env\<lparr>stat := (\<lambda>p. None)\<rparr>"

definition touched_env :: Env where
  "touched_env = example_env\<lparr>stat := (\<lambda>p. Some \<lparr>st_mtime = 101, st_size = 2048\<rparr>)\<rparr>"

definition racing_env :: Env where
  "racing_env =
     example_env
       \<lparr>interference :=
          (\<lambda>t. \<lparr>href_seen = (\<lambda>pt. if pt = At_xml_dump then None else Some ''sub/a.rpm''),
                 href_left = ''sub/a.rpm''\<rparr>)\<rparr>"

definition database_udata :: UserData where
  "database_udata = example_udata\<lparr>ud_pri_statements := True\<rparr>"

text \<open>The two other tasks of the run, and what the run does.\<close>

definition broken_task :: PoolTask where
  "broken_task =
     \<lparr>full_path = ''/repo/broken.rpm'', filename = ''broken.rpm'', path = ''/repo''\<rparr>"

definition linked_task :: PoolTask where
  "linked_task =
     \<lparr>full_path = ''/repo/link/b.rpm'', filename = ''b.rpm'', path = ''/repo/link''\<rparr>"

definition example_writes :: "worker_event list" where
  "example_writes =
     [G_LOCK PRI, Cw_puts_package PRI ''<package>'', G_UNLOCK PRI,
      G_LOCK FIL, Cw_puts_package FIL ''<package>'', G_UNLOCK FIL,
      G_LOCK OTH, Cw_puts_package OTH ''<package>'', G_UNLOCK OTH]"

definition example_trace :: "event list" where
  "example_trace =
     [G_mkdir ''/repo/.repodata/'' MKDIR_OK,
      Assign_tmp_repodata_path (Some ''/repo/.repodata/''),
      Sigaction_SIGINT True,
      Locate_and_load_xml_metadata ''/repo/'' True,
      Cw_open PRI ''/repo/.repodata//primary.xml.gz'' True,
      Cw_open FIL ''/repo/.repodata//filelists.xml.gz'' True,
      Cw_open OTH ''/repo/.repodata//other.xml.gz'' True,
      Call ''package_parser_init'' [],
      G_thread_pool_new 0,
      G_thread_pool_push example_task,
      G_thread_pool_push broken_task,
      G_thread_pool_push linked_task,
      Cw_printf_header PRI 3, Cw_printf_header FIL 3, Cw_printf_header OTH 3,
      G_thread_pool_set_max_threads 2]
     @ map (Worker example_task)
         (Assign_locations ''a.rpm'' None
          # Xml_dump ((example_package ''a.rpm'')\<lparr>location_href := ''a.rpm''\<rparr>)
          # example_writes)
     @ map (Worker broken_task)
         [Package_from_file ''/repo/broken.rpm'' PKG_CHECKSUM_SHA256 ''broken.rpm'' None 10,
          Cannot_read_package ''/repo/broken.rpm'']
     @ map (Worker linked_task)
         (Package_from_file ''/repo/link/b.rpm'' PKG_CHECKSUM_SHA256 ''link/b.rpm'' None 10
          # Xml_dump ((example_package ''b.rpm'')\<lparr>location_href := ''link/b.rpm''\<rparr>)
          # example_writes)
     @ [G_thread_pool_free,
        Cw_puts_footer PRI, Cw_puts_footer FIL, Cw_puts_footer OTH,
        Cw_close PRI, Cw_close FIL, Cw_close OTH,
        Call ''destroy_primary_db_statements'' [],
        Call ''destroy_filelists_db_statements'' [],
        Call ''destroy_other_db_statements'' [],
        Call ''close_primary_db'' [], Call ''close_filelists_db'' [],
        Call ''close_other_db'' [],
        G_rename ''/repo/.repodata/'' ''/repo/repodata/'' True,
        Fill_missing_data ''repodata/primary.xml.gz'' True,
        Fill_missing_data ''repodata/filelists.xml.gz'' True,
        Fill_missing_data ''repodata/other.xml.gz'' True,
        Xml_repomd True,
        Fopen ''/repo/repodata/repomd.xml'' True,
        Fputs_repomd ''<repomd>'',
        Call ''fclose'' [],
        Call ''destroy_metadata_hashtable'' [],
        Assign_tmp_repodata_path None,
        Call ''free_options'' [],
        Call ''package_parser_shutdown'' []]"

text \<open>
  The same repository with databases, an old \<open>repodata/\<close> that holds a file which
  cannot be moved, and a file system that refuses every rename and removal: the staging
  directory stays where it is, the checksums cannot be computed, the databases cannot be
  compressed, and \<open>repomd.xml\<close> is written into the old directory.
\<close>

definition refusing_env :: Env where
  "refusing_env =
     example_env
       \<lparr>parse_arguments := Some (example_options\<lparr>opt_no_database := False\<rparr>),
        out_repo_exists := (\<lambda>d. True),
        out_repo_read := (\<lambda>d. Some [''stale.xml'']),
        g_rename := (\<lambda>a b. False),
        g_rmdir := (\<lambda>d. False),
        fill_missing_data := (\<lambda>d r t. None),
        compress_file := (\<lambda>f c. False)\<rparr>"

text \<open>
  An update of \<open>/repo/\<close> into the output directory \<open>/out/\<close> with one more source
  of old metadata; \<open>/out/\<close> and \<open>/repo/\<close> both know \<open>a.rpm\<close>, and \<open>/extra/\<close> cannot be
  loaded.
\<close>

definition update_options :: CmdOptions where
  "update_options =
     example_options\<lparr>opt_outputdir := Some ''/out'', opt_l_update_md_paths := [''/extra/'']\<rparr>"

definition update_dirs :: Dirs where
  "update_dirs =
     \<lparr>in_dir = ''/repo/'', in_repo = ''/repo/repodata/'', out_dir = ''/out/'',
      out_repo = ''/out/repodata/'', tmp_out_repo = ''/out/.repodata/''\<rparr>"

definition update_env :: Env where
  "update_env =
     example_env
       \<lparr>repodata := (\<lambda>d. if d = ''/repo/'' then (True, [(''a.rpm'', example_package ''a.rpm'')])
                         else if d = ''/out/''
                         then (True, [(''a.rpm'', example_package ''stale''),
                                      (''c.rpm'', example_package ''c.rpm'')])
                         else (False, []))\<rparr>"

text \<open>A directory in which \<open>a.rpm\<close> is a symbolic link, and the pool before the walk.\<close>

definition linking_env :: Env where
  "linking_env = example_env\<lparr>is_symlink := (\<lambda>p. p = ''/repo/a.rpm'')\<rparr>"

definition example_walk :: Walk where
  "example_walk =
     \<lparr>sub_dirs = [],
      pool = \<lparr>pool_max_threads = 0, pool_queue = [], pool_user_data = example_udata\<rparr>,
      package_count = 0, events = []\<rparr>"

section \<open>Checks of the callback arguments\<close>

lemma py_xml_parse_primary_TypeError:
  assumes "format_s f" "- (2 ^ 31) \<le> d" "d < 2 ^ 31"
    and "bad_callback n \<or> bad_callback p \<or> bad_callback w"
  shows "fst (py_xml_parse_primary parser [PyString f, n, p, w, PyLong d]) = []
       \<and> is_TypeError (snd (py_xml_parse_primary parser [PyString f, n, p, w, PyLong d]))"
  using assms by (auto simp: py_xml_parse_primary_def bad_callback_def)

lemma py_xml_parse_primary_ValueError:
  assumes "format_s f" "- (2 ^ 31) \<le> d" "d < 2 ^ 31"
    and "\<not> bad_callback w"
  shows "py_xml_parse_primary parser [PyString f, Py_None, Py_None, w, PyLong d]
       = ([], Inl (PyExc_ValueError ''both pkgcb and newpkgcb cannot be None''))"
  using assms by (auto simp: py_xml_parse_primary_def bad_callback_def)

lemma py_xml_parse_filelists_TypeError:
  assumes "format_s f" "bad_callback n \<or> bad_callback p \<or> bad_callback w"
  shows "fst (py_xml_parse_filelists parser [PyString f, n, p, w]) = []
       \<and> is_TypeError (snd (py_xml_parse_filelists parser [PyString f, n, p, w]))"
  using assms by (auto simp: py_xml_parse_filelists_def bad_callback_def)

lemma py_xml_parse_filelists_ValueError:
  assumes "format_s f" "\<not> bad_callback w"
  shows "py_xml_parse_filelists parser [PyString f, Py_None, Py_None, w]
       = ([], Inl (PyExc_ValueError ''both pkgcb and newpkgcb cannot be None''))"
  using assms by (auto simp: py_xml_parse_filelists_def bad_callback_def)

lemma py_xml_parse_other_TypeError:
  assumes "format_s f" "bad_callback n \<or> bad_callback p \<or> bad_callback w"
  shows "fst (py_xml_parse_other parser [PyString f, n, p, w]) = []
       \<and> is_TypeError (snd (py_xml_parse_other parser [PyString f, n, p, w]))"
  using assms by (auto simp: py_xml_parse_other_def bad_callback_def)

lemma py_xml_parse_other_ValueError:
  assumes "format_s f" "\<not> bad_callback w"
  shows "py_xml_parse_other parser [PyString f, Py_None, Py_None, w]
       = ([], Inl (PyExc_ValueError ''both pkgcb and newpkgcb cannot be None''))"
  using assms by (auto simp: py_xml_parse_other_def bad_callback_def)

text \<open>
  Whatever the arguments, an entry point that is given a callback that is neither callable
  nor \<open>None\<close>, or \<open>None\<close> for both \<open>newpkgcb\<close> and \<open>pkgcb\<close>, makes no call of the parser
  and returns an error: where the arguments do not parse (a file name with a NUL, an
  integer out of range) the error is that of the parsing.
\<close>

lemma entry_points_reject:
  assumes "r \<in> set (xml_parse_entry_points parser f n p w d)"
    and "bad_callback n \<or> bad_callback p \<or> bad_callback w \<or> (n = Py_None \<and> p = Py_None)"
  shows "fst r = [] \<and> isl (snd r)"
  using assms
  by (auto simp: xml_parse_entry_points_def py_xml_parse_primary_def py_xml_parse_filelists_def
      py_xml_parse_other_def bad_callback_def)

text \<open>
  C10. Each of \<open>py_xml_parse_primary\<close>, \<open>py_xml_parse_filelists\<close> and
  \<open>py_xml_parse_other\<close> returns an error and makes no call of the underlying parser when
  \<open>newpkgcb\<close>, \<open>pkgcb\<close> or \<open>warningcb\<close> is neither callable nor \<open>None\<close>, or when
  \<open>newpkgcb\<close> and \<open>pkgcb\<close> are both \<open>None\<close>. Where the arguments parse (the file name
  has no NUL character and the integer fits a C \<open>int\<close>), the error of the first case is a
  \<open>TypeError\<close>, and the error of the second is the \<open>ValueError\<close>, unless \<open>warningcb\<close>
  fails the type check, which comes first and gives the \<open>TypeError\<close>.
\<close>

theorem C10_callback_checks:
  assumes "r \<in> set (xml_parse_entry_points parser f n p w d)"
  shows "(bad_callback n \<or> bad_callback p \<or> bad_callback w \<or> (n = Py_None \<and> p = Py_None)
            \<longrightarrow> fst r = [] \<and> isl (snd r))
       \<and> (format_s f \<and> - (2 ^ 31) \<le> d \<and> d < 2 ^ 31
            \<longrightarrow> (bad_callback n \<or> bad_callback p \<or> bad_callback w
                   \<longrightarrow> fst r = [] \<and> is_TypeError (snd r))
              \<and> (n = Py_None \<and> p = Py_None
                   \<longrightarrow> fst r = []
                     \<and> (if bad_callback w then is_TypeError (snd r)
                          else snd r = Inl (PyExc_ValueError
                                 ''both pkgcb and newpkgcb cannot be None''))))
       \<and> (\<not> format_s f \<longrightarrow> r = ([], Inl ArgParseError))"
proof -
  from assms consider
      "r = py_xml_parse_primary parser [PyString f, n, p, w, PyLong d]"
    | "r = py_xml_parse_filelists parser [PyString f, n, p, w]"
    | "r = py_xml_parse_other parser [PyString f, n, p, w]"
    by (auto simp: xml_parse_entry_points_def)
  then have parsed: "format_s f \<and> - (2 ^ 31) \<le> d \<and> d < 2 ^ 31
            \<longrightarrow> (bad_callback n \<or> bad_callback p \<or> bad_callback w
                   \<longrightarrow> fst r = [] \<and> is_TypeError (snd r))
              \<and> (n = Py_None \<and> p = Py_None
                   \<longrightarrow> fst r = []
                     \<and> (if bad_callback w then is_TypeError (snd r)
                          else snd r = Inl (PyExc_ValueError
                                 ''both pkgcb and newpkgcb cannot be None'')))"
  proof cases
    case 1
    then show ?thesis
      using py_xml_parse_primary_TypeError [of f d n p w parser]
        py_xml_parse_primary_ValueError [of f d w parser]
      by auto
  next
    case 2
    then show ?thesis
      using py_xml_parse_filelists_TypeError [of f n p w parser]
        py_xml_parse_filelists_ValueError [of f w parser]
      by auto
  next
    case 3
    then show ?thesis
      using py_xml_parse_other_TypeError [of f n p w parser]
        py_xml_parse_other_ValueError [of f w parser]
      by auto
  qed
  have nul: "\<not> format_s f \<longrightarrow> r = ([], Inl ArgParseError)"
    using assms
    by (auto simp: xml_parse_entry_points_def py_xml_parse_primary_def
        py_xml_parse_filelists_def py_xml_parse_other_def)
  from entry_points_reject [OF assms] parsed nul show ?thesis by blast
qed

theorem C10_callback_checks_witness:
  "py_xml_parse_primary (\<lambda>_. None)
       [PyString ''primary.xml'', PyLong 7, PyFunction 0, Py_None, PyLong 1]
     \<in> set (xml_parse_entry_points (\<lambda>_. None) ''primary.xml'' (PyLong 7) (PyFunction 0) Py_None 1)
   \<and> bad_callback (PyLong 7)
   \<and> format_s ''primary.xml''
   \<and> fst (py_xml_parse_primary (\<lambda>_. None)
       [PyString ''primary.xml'', PyLong 7, PyFunction 0, Py_None, PyLong 1]) = []
   \<and> is_TypeError (snd (py_xml_parse_primary (\<lambda>_. None)
       [PyString ''primary.xml'', PyLong 7, PyFunction 0, Py_None, PyLong 1]))
   \<and> py_xml_parse_other (\<lambda>_. None) [PyString ''other.xml'', Py_None, Py_None, Py_None]
     \<in> set (xml_parse_entry_points (\<lambda>_. None) ''other.xml'' Py_None Py_None Py_None 0)
   \<and> py_xml_parse_other (\<lambda>_. None) [PyString ''other.xml'', Py_None, Py_None, Py_None]
     = ([], Inl (PyExc_ValueError ''both pkgcb and newpkgcb cannot be None''))
   \<and> py_xml_parse_filelists (\<lambda>_. None)
       [PyString [CHR ''a'', CHR 0x00, CHR ''b''], PyLong 7, Py_None, Py_None]
     \<in> set (xml_parse_entry_points (\<lambda>_. None) [CHR ''a'', CHR 0x00, CHR ''b''] (PyLong 7)
              Py_None Py_None 0)
   \<and> \<not> format_s [CHR ''a'', CHR 0x00, CHR ''b'']
   \<and> py_xml_parse_filelists (\<lambda>_. None)
       [PyString [CHR ''a'', CHR 0x00, CHR ''b''], PyLong 7, Py_None, Py_None]
     = ([], Inl ArgParseError)"
proof -
  have m1: "py_xml_parse_primary (\<lambda>_. None)
       [PyString ''primary.xml'', PyLong 7, PyFunction 0, Py_None, PyLong 1]
     \<in> set (xml_parse_entry_points (\<lambda>_. None) ''primary.xml'' (PyLong 7) (PyFunction 0) Py_None 1)"
    and m2: "py_xml_parse_other (\<lambda>_. None) [PyString ''other.xml'', Py_None, Py_None, Py_None]
     \<in> set (xml_parse_entry_points (\<lambda>_. None) ''other.xml'' Py_None Py_None Py_None 0)"
    and m3: "py_xml_parse_filelists (\<lambda>_. None)
       [PyString [CHR ''a'', CHR 0x00, CHR ''b''], PyLong 7, Py_None, Py_None]
     \<in> set (xml_parse_entry_points (\<lambda>_. None) [CHR ''a'', CHR 0x00, CHR ''b''] (PyLong 7)
              Py_None Py_None 0)"
    by (simp_all add: xml_parse_entry_points_def)
  have b: "bad_callback (PyLong 7)" "\<not> bad_callback Py_None"
    and f: "format_s ''primary.xml''" "format_s ''other.xml''"
      "\<not> format_s [CHR ''a'', CHR 0x00, CHR ''b'']"
    by (simp_all add: bad_callback_def format_s_def)
  have d: "- (2 ^ 31) \<le> (1::int)" "(1::int) < 2 ^ 31" "- (2 ^ 31) \<le> (0::int)" "(0::int) < 2 ^ 31"
    by simp_all
  from C10_callback_checks [OF m1] b f d
  have r1: "fst (py_xml_parse_primary (\<lambda>_. None)
       [PyString ''primary.xml'', PyLong 7, PyFunction 0, Py_None, PyLong 1]) = []
   \<and> is_TypeError (snd (py_xml_parse_primary (\<lambda>_. None)
       [PyString ''primary.xml'', PyLong 7, PyFunction 0, Py_None, PyLong 1]))"
    by blast
  from C10_callback_checks [OF m2] b f d
  have "fst (py_xml_parse_other (\<lambda>_. None) [PyString ''other.xml'', Py_None, Py_None, Py_None]) = []
   \<and> snd (py_xml_parse_other (\<lambda>_. None) [PyString ''other.xml'', Py_None, Py_None, Py_None])
     = Inl (PyExc_ValueError ''both pkgcb and newpkgcb cannot be None'')"
    by (simp only: simp_thms if_False)
  then have r2: "py_xml_parse_other (\<lambda>_. None) [PyString ''other.xml'', Py_None, Py_None, Py_None]
     = ([], Inl (PyExc_ValueError ''both pkgcb and newpkgcb cannot be None''))"
    by (simp only: prod_eq_iff fst_conv snd_conv simp_thms)
  from C10_callback_checks [OF m3] f
  have r3: "py_xml_parse_filelists (\<lambda>_. None)
       [PyString [CHR ''a'', CHR 0x00, CHR ''b''], PyLong 7, Py_None, Py_None]
     = ([], Inl ArgParseError)"
    by blast
  from m1 m2 m3 b f r1 r2 r3 show ?thesis by blast
qed

section \<open>The worker: the cache\<close>

text \<open>What \<open>dumper_thread\<close> does with a task whose file name is in the table.\<close>

lemma dumper_thread_found:
  assumes "ud_old_metadata udata = Some ht" and "ht (filename task) = Some md"
  shows "dumper_thread env udata task =
           (if ud_skip_stat udata then
              (cached_events env udata task md,
               udata\<lparr>ud_old_metadata :=
                        Some (ht(filename task \<mapsto>
                                left_record (interference env task) udata task md))\<rparr>)
            else
              case stat env (full_path task) of
                None \<Rightarrow> ([Stat_failed (full_path task)], udata)
              | Some sb \<Rightarrow>
                  if st_mtime sb = time_file md \<and> st_size sb = size_package md
                     \<and> ud_checksum_type_str udata = checksum_type md
                  then (cached_events env udata task md,
                        udata\<lparr>ud_old_metadata :=
                                 Some (ht(filename task \<mapsto>
                                         left_record (interference env task) udata task md))\<rparr>)
                  else (fresh_events env udata task, udata))"
  using assms by (auto simp: dumper_thread_def Let_def split: option.splits)

lemma dumper_thread_cached:
  assumes "ud_old_metadata udata = Some ht" and "ht (filename task) = Some md"
    and "ud_skip_stat udata
         \<or> (stat env (full_path task) = Some sb \<and> st_mtime sb = time_file md
            \<and> st_size sb = size_package md \<and> ud_checksum_type_str udata = checksum_type md)"
  shows "dumper_thread env udata task
       = (cached_events env udata task md,
          udata\<lparr>ud_old_metadata :=
                   Some (ht(filename task \<mapsto>
                           left_record (interference env task) udata task md))\<rparr>)"
  using assms(3) by (auto simp: dumper_thread_found [OF assms(1,2)])

lemma write_sinks_no_parse: "\<not> list_ex is_Package_from_file (write_sinks udata pkg res)"
  by (simp add: write_sinks_def write_sink_def)

lemma write_sinks_no_assign: "\<not> list_ex is_Assign_locations (write_sinks udata pkg res)"
  by (simp add: write_sinks_def write_sink_def)

lemma records_handed_write_sinks:
  "set (records_handed (write_sinks udata pkg res)) \<subseteq> {pkg PRI, pkg FIL, pkg OTH}"
  by (simp add: write_sinks_def write_sink_def)

lemma seen_record_frame:
  "(seen_record i udata task md pt)
     \<lparr>location_href := location_href md, location_base := location_base md\<rparr> = md"
  by (simp add: seen_record_def set_locations_def split: option.splits)

lemma seen_record_base: "location_base (seen_record i udata task md pt) = ud_location_base udata"
  by (simp add: seen_record_def set_locations_def split: option.splits)

lemma seen_record_href:
  "location_href (seen_record i udata task md pt)
     = (case href_seen i pt of None \<Rightarrow> task_location_href udata task | Some h \<Rightarrow> h)"
  by (simp add: seen_record_def set_locations_def split: option.splits)

lemma records_handed_cached:
  "set (records_handed (cached_events env udata task md))
     \<subseteq> range (seen_record (interference env task) udata task md)"
  using records_handed_write_sinks
    [of udata "\<lambda>s. seen_record (interference env task) udata task md (At_add_pkg_db s)"
       "xml_dump env (seen_record (interference env task) udata task md At_xml_dump)"]
  by (auto simp: cached_events_def Let_def)

lemma cached_events_use:
  "\<not> list_ex is_Package_from_file (cached_events env udata task md)
   \<and> records_handed (cached_events env udata task md) \<noteq> []
   \<and> list_all (\<lambda>p. p\<lparr>location_href := location_href md, location_base := location_base md\<rparr>
                      = md)
       (records_handed (cached_events env udata task md))"
proof -
  have "\<forall>p \<in> set (records_handed (cached_events env udata task md)).
          p\<lparr>location_href := location_href md, location_base := location_base md\<rparr> = md"
    using records_handed_cached [of env udata task md] seen_record_frame by blast
  then show ?thesis
    by (simp add: list_all_iff cached_events_def Let_def write_sinks_no_parse)
qed

lemma fresh_events_parse:
  "hd (fresh_events env udata task) = call_package_from_file udata task
   \<and> \<not> list_ex is_Assign_locations (fresh_events env udata task)
   \<and> set (records_handed (fresh_events env udata task))
       \<subseteq> set_option (package_from_file env (full_path task) (ud_checksum_type udata)
                       (task_location_href udata task) (ud_location_base udata)
                       (ud_changelog_limit udata))"
proof (cases "package_from_file env (full_path task) (ud_checksum_type udata)
                (task_location_href udata task) (ud_location_base udata)
                (ud_changelog_limit udata)")
  case None
  then show ?thesis by (simp add: fresh_events_def call_package_from_file_def)
next
  case (Some pkg)
  then show ?thesis
    using records_handed_write_sinks [of udata "\<lambda>_. pkg" "xml_dump env pkg"]
    by (auto simp: fresh_events_def call_package_from_file_def write_sinks_no_assign)
qed

lemma cached_not_fresh: "cached_events env udata task md \<noteq> fresh_events env udata task"
  by (simp add: cached_events_def fresh_events_def Let_def call_package_from_file_def
      split: option.splits)

text \<open>
  C2. For a task whose file name is found in the old metadata:

  \<^item> with \<open>--skip-stat\<close> the cached record is used;
  \<^item> without it, a task whose \<open>stat\<close> fails is dropped (neither is the record used nor
    the package parsed), and otherwise the cached record is used exactly if the time, the
    size and the checksum type all agree, and on a mismatch the package is parsed afresh.

  The cached record is used: the header parser is not called, and every record handed to
  the serializer and to the databases is the cached one but for its two location fields.
  The package is parsed afresh: the call of the header parser comes first, the cached
  record is not assigned to, and no record but the parser's is handed on.
\<close>

theorem C2_cache_decision:
  assumes "ud_old_metadata udata = Some ht" and "ht (filename task) = Some md"
  shows "fst (dumper_thread env udata task) =
           (if ud_skip_stat udata then cached_events env udata task md
            else
              case stat env (full_path task) of
                None \<Rightarrow> [Stat_failed (full_path task)]
              | Some sb \<Rightarrow>
                  if st_mtime sb = time_file md \<and> st_size sb = size_package md
                     \<and> ud_checksum_type_str udata = checksum_type md
                  then cached_events env udata task md
                  else fresh_events env udata task)
       \<and> (fst (dumper_thread env udata task) = cached_events env udata task md
            \<longleftrightarrow> ud_skip_stat udata
                \<or> (\<exists>sb. stat env (full_path task) = Some sb
                         \<and> st_mtime sb = time_file md \<and> st_size sb = size_package md
                         \<and> ud_checksum_type_str udata = checksum_type md))
       \<and> \<not> list_ex is_Package_from_file (cached_events env udata task md)
       \<and> records_handed (cached_events env udata task md) \<noteq> []
       \<and> list_all (\<lambda>p. p\<lparr>location_href := location_href md, location_base := location_base md\<rparr>
                          = md)
           (records_handed (cached_events env udata task md))
       \<and> hd (fresh_events env udata task) = call_package_from_file udata task
       \<and> \<not> list_ex is_Assign_locations (fresh_events env udata task)
       \<and> set (records_handed (fresh_events env udata task))
           \<subseteq> set_option (package_from_file env (full_path task) (ud_checksum_type udata)
                           (task_location_href udata task) (ud_location_base udata)
                           (ud_changelog_limit udata))"
proof -
  have table: "fst (dumper_thread env udata task) =
           (if ud_skip_stat udata then cached_events env udata task md
            else
              case stat env (full_path task) of
                None \<Rightarrow> [Stat_failed (full_path task)]
              | Some sb \<Rightarrow>
                  if st_mtime sb = time_file md \<and> st_size sb = size_package md
                     \<and> ud_checksum_type_str udata = checksum_type md
                  then cached_events env udata task md
                  else fresh_events env udata task)"
    by (simp add: dumper_thread_found [OF assms] split: option.splits)
  have dropped: "cached_events env udata task md \<noteq> [Stat_failed (full_path task)]"
    by (simp add: cached_events_def Let_def)
  have iff: "fst (dumper_thread env udata task) = cached_events env udata task md
            \<longleftrightarrow> ud_skip_stat udata
                \<or> (\<exists>sb. stat env (full_path task) = Some sb
                         \<and> st_mtime sb = time_file md \<and> st_size sb = size_package md
                         \<and> ud_checksum_type_str udata = checksum_type md)"
    using dropped cached_not_fresh [of env udata task md]
    by (auto simp: table split: option.splits)
  from table iff cached_events_use [of env udata task md] fresh_events_parse [of env udata task]
  show ?thesis by blast
qed

theorem C2_cache_decision_witness:
  "ud_old_metadata example_udata = Some [''a.rpm'' \<mapsto> example_package ''a.rpm'']
   \<and> [''a.rpm'' \<mapsto> example_package ''a.rpm''] (filename example_task)
       = Some (example_package ''a.rpm'')
   \<and> \<not> ud_skip_stat example_udata
   \<and> stat example_env (full_path example_task) = Some \<lparr>st_mtime = 100, st_size = 2048\<rparr>
   \<and> time_file (example_package ''a.rpm'') = 100
   \<and> fst (dumper_thread example_env example_udata example_task)
       = cached_events example_env example_udata example_task (example_package ''a.rpm'')
   \<and> records_handed
       (cached_events example_env example_udata example_task (example_package ''a.rpm''))
       = [(example_package ''a.rpm'')\<lparr>location_href := ''a.rpm''\<rparr>]
   \<and> stat touched_env (full_path example_task) = Some \<lparr>st_mtime = 101, st_size = 2048\<rparr>
   \<and> fst (dumper_thread touched_env example_udata example_task)
       = fresh_events touched_env example_udata example_task
   \<and> records_handed (fresh_events touched_env example_udata example_task)
       = [(example_package ''b.rpm'')\<lparr>location_href := ''a.rpm''\<rparr>]
   \<and> hd (fresh_events touched_env example_udata example_task)
       = Package_from_file ''/repo/a.rpm'' PKG_CHECKSUM_SHA256 ''a.rpm'' None 10"
proof -
  have found: "ud_old_metadata example_udata = Some [''a.rpm'' \<mapsto> example_package ''a.rpm'']"
    "[''a.rpm'' \<mapsto> example_package ''a.rpm''] (filename example_task)
       = Some (example_package ''a.rpm'')"
    by (simp_all add: example_udata_def example_task_def)
  have facts: "\<not> ud_skip_stat example_udata"
    "stat example_env (full_path example_task) = Some \<lparr>st_mtime = 100, st_size = 2048\<rparr>"
    "stat touched_env (full_path example_task) = Some \<lparr>st_mtime = 101, st_size = 2048\<rparr>"
    "time_file (example_package ''a.rpm'') = 100"
    "size_package (example_package ''a.rpm'') = 2048"
    "checksum_type (example_package ''a.rpm'') = ud_checksum_type_str example_udata"
    by (simp_all add: example_udata_def example_task_def example_env_def touched_env_def
        example_package_def)
  have handed: "records_handed
       (cached_events example_env example_udata example_task (example_package ''a.rpm''))
       = [(example_package ''a.rpm'')\<lparr>location_href := ''a.rpm''\<rparr>]"
    "records_handed (fresh_events touched_env example_udata example_task)
       = [(example_package ''b.rpm'')\<lparr>location_href := ''a.rpm''\<rparr>]"
    by (simp_all add: cached_events_def fresh_events_def seen_record_def set_locations_def
        call_package_from_file_def
        task_location_href_def write_sinks_def write_sink_def Let_def example_udata_def
        example_task_def example_env_def touched_env_def example_package_def)
  have call: "call_package_from_file example_udata example_task
       = Package_from_file ''/repo/a.rpm'' PKG_CHECKSUM_SHA256 ''a.rpm'' None 10"
    by (simp add: call_package_from_file_def task_location_href_def example_udata_def
        example_task_def)
  from C2_cache_decision [OF found, of example_env] facts
  have used: "fst (dumper_thread example_env example_udata example_task)
       = cached_events example_env example_udata example_task (example_package ''a.rpm'')"
    by simp
  from C2_cache_decision [OF found, of touched_env] facts call
  have fresh: "fst (dumper_thread touched_env example_udata example_task)
       = fresh_events touched_env example_udata example_task"
    "hd (fresh_events touched_env example_udata example_task)
       = Package_from_file ''/repo/a.rpm'' PKG_CHECKSUM_SHA256 ''a.rpm'' None 10"
    by simp_all
  from found facts handed used fresh show ?thesis by blast
qed

text \<open>
  The claim as it is written fails where \<open>stat\<close> fails: the file name of the task is in
  the table and \<open>--skip-stat\<close> is off, and the worker neither uses the cached record nor
  parses the package; it logs the failure and drops the task.
\<close>

theorem C2_counterexample:
  "ud_old_metadata example_udata = Some [''a.rpm'' \<mapsto> example_package ''a.rpm'']
   \<and> [''a.rpm'' \<mapsto> example_package ''a.rpm''] (filename example_task)
       = Some (example_package ''a.rpm'')
   \<and> \<not> ud_skip_stat example_udata
   \<and> stat unreadable_env (full_path example_task) = None
   \<and> fst (dumper_thread unreadable_env example_udata example_task)
       = [Stat_failed ''/repo/a.rpm'']
   \<and> records_handed (fst (dumper_thread unreadable_env example_udata example_task)) = []
   \<and> \<not> list_ex is_Package_from_file
         (fst (dumper_thread unreadable_env example_udata example_task))"
  by (simp add: dumper_thread_def Let_def example_udata_def example_task_def unreadable_env_def
      example_env_def)

section \<open>The worker: what a cache hit changes\<close>



section \<open>The worker: the locks\<close>

lemma lock_discipline_prefix:
  "lock_discipline tr h \<Longrightarrow> tr = pre @ post \<Longrightarrow>
     length (held_locks pre (case h of None \<Rightarrow> [] | Some s \<Rightarrow> [s])) \<le> 1
     \<and> (\<forall>s post'. post = G_LOCK s # post'
          \<longrightarrow> held_locks pre (case h of None \<Rightarrow> [] | Some s \<Rightarrow> [s]) = [])"
proof (induction tr h arbitrary: pre rule: lock_discipline.induct)
  case (1 h)
  then show ?case by (cases h) auto
next
  case (2 s es h)
  then show ?case by (cases pre) auto
next
  case (3 s es h)
  then show ?case by (cases pre) auto
qed (auto simp: Cons_eq_append_conv split: option.splits)

lemma write_sinks_discipline: "lock_discipline (write_sinks udata pkg res) None"
  by (simp add: write_sinks_def write_sink_def)

lemma dumper_thread_discipline: "lock_discipline (fst (dumper_thread env udata task)) None"
  by (simp add: dumper_thread_def cached_events_def fresh_events_def Let_def
      write_sinks_discipline call_package_from_file_def
      split: option.splits bool.splits)

lemma write_sinks_locks:
  "filter is_G_LOCK (write_sinks udata pkg res) = [G_LOCK PRI, G_LOCK FIL, G_LOCK OTH]"
  by (simp add: write_sinks_def write_sink_def)

lemma write_sinks_released: "held_locks (write_sinks udata pkg res) [] = []"
  by (simp add: write_sinks_def write_sink_def)

lemma dumper_thread_locks:
  "filter is_G_LOCK (fst (dumper_thread env udata task))
     \<in> {[], [G_LOCK PRI, G_LOCK FIL, G_LOCK OTH]}"
  by (simp add: dumper_thread_def cached_events_def fresh_events_def Let_def write_sinks_locks
      call_package_from_file_def
      split: option.splits bool.splits)

lemma dumper_thread_released: "held_locks (fst (dumper_thread env udata task)) [] = []"
  by (simp add: dumper_thread_def cached_events_def fresh_events_def Let_def
      write_sinks_released call_package_from_file_def
      split: option.splits bool.splits)



section \<open>Lemmas about a run of \<open>main\<close>\<close>

subsection \<open>Projections and append\<close>

lemma pushed_tasks_append [simp]: "pushed_tasks (xs @ ys) = pushed_tasks xs @ pushed_tasks ys"
  by (induction xs rule: pushed_tasks.induct) simp_all

lemma declared_packages_append [simp]:
  "declared_packages s (xs @ ys) = declared_packages s xs @ declared_packages s ys"
  by (induction s xs rule: declared_packages.induct) simp_all

lemma packages_written_append [simp]:
  "packages_written s (xs @ ys) = packages_written s xs + packages_written s ys"
  by (induction s xs rule: packages_written.induct) simp_all

lemma tasks_dropped_append [simp]: "tasks_dropped (xs @ ys) = tasks_dropped xs + tasks_dropped ys"
  by (induction xs rule: tasks_dropped.induct) simp_all

lemma max_threads_set_append [simp]:
  "max_threads_set (xs @ ys) = max_threads_set xs @ max_threads_set ys"
  by (induction xs rule: max_threads_set.induct) simp_all

lemma tmp_repodata_path_after_append [simp]:
  "tmp_repodata_path_after (xs @ ys) c = tmp_repodata_path_after ys (tmp_repodata_path_after xs c)"
  by (induction xs c rule: tmp_repodata_path_after.induct) simp_all

lemma with_cell_append [simp]:
  "with_cell (xs @ ys) c = with_cell xs c @ with_cell ys (tmp_repodata_path_after xs c)"
proof (induction xs arbitrary: c)
  case Nil
  then show ?case by simp
next
  case (Cons e es)
  have "tmp_repodata_path_after (e # es) c
      = tmp_repodata_path_after es (tmp_repodata_path_after [e] c)"
    using tmp_repodata_path_after_append [of "[e]" es c] by simp
  with Cons show ?case by simp
qed

subsection \<open>Kinds of events\<close>

lemma only_Nil [simp]: "only K []"
  by (simp add: only_def)

lemma only_Cons [simp]: "only K (e # es) = (kind_of e \<in> K \<and> only K es)"
  by (simp add: only_def)

lemma only_append [simp]: "only K (xs @ ys) = (only K xs \<and> only K ys)"
  by (auto simp: only_def)

lemma only_mono: "only K es \<Longrightarrow> K \<subseteq> K' \<Longrightarrow> only K' es"
  by (auto simp: only_def)

lemma only_map_Call [simp]: "only K (map (\<lambda>x. Call n (f x)) xs) = (xs = [] \<or> K_plain \<in> K)"
  by (induction xs) auto

lemma only_map_Worker [simp]: "only K (map (Worker task) es) = (es = [] \<or> K_worker \<in> K)"
  by (induction es) auto

lemma only_no_push: "only K es \<Longrightarrow> K_push \<notin> K \<Longrightarrow> pushed_tasks es = []"
proof (induction es)
  case (Cons e es)
  then show ?case by (cases e) auto
qed simp

lemma only_no_header: "only K es \<Longrightarrow> K_header \<notin> K \<Longrightarrow> declared_packages s es = []"
proof (induction es)
  case (Cons e es)
  then show ?case by (cases e) auto
qed simp

lemma only_no_set_max: "only K es \<Longrightarrow> K_set_max \<notin> K \<Longrightarrow> max_threads_set es = []"
proof (induction es)
  case (Cons e es)
  then show ?case by (cases e) auto
qed simp

lemma only_no_worker:
  "only K es \<Longrightarrow> K_worker \<notin> K \<Longrightarrow>
     packages_written s es = 0 \<and> tasks_dropped es = 0 \<and> list_all (\<lambda>e. \<not> is_Worker e) es"
proof (induction es)
  case (Cons e es)
  then show ?case by (cases e) auto
qed simp

lemma only_no_assign:
  "only K es \<Longrightarrow> K_assign \<notin> K \<Longrightarrow>
     tmp_repodata_path_after es c = c \<and> (\<forall>x \<in> set (with_cell es c). snd x = c)"
proof (induction es)
  case (Cons e es)
  then show ?case by (cases e) auto
qed simp

lemma only_not_in: "only K es \<Longrightarrow> kind_of e \<notin> K \<Longrightarrow> e \<notin> set es"
  by (auto simp: only_def)

subsection \<open>Sections of the start\<close>

lemma parse_and_check_plain: "only {K_plain} (fst (parse_and_check env))"
  by (simp add: parse_and_check_def Let_def split: option.splits)

lemma copy_groupfile_plain: "only {K_plain} (fst (copy_groupfile env options dirs))"
  by (simp add: copy_groupfile_def Let_def split: option.splits)

lemma load_update_md_paths_plain: "only {K_plain} (fst (load_update_md_paths env ht ps))"
  by (induction ps arbitrary: ht) (simp_all add: case_prod_unfold)

lemma load_old_metadata_plain: "only {K_plain} (fst (load_old_metadata env options dirs))"
  by (simp add: load_old_metadata_def Let_def case_prod_unfold load_update_md_paths_plain)

lemma open_xml_files_plain: "only {K_plain} (fst (open_xml_files env dirs))"
  by (simp add: open_xml_files_def Let_def)

lemma open_xml_files_Inr:
  "snd (open_xml_files env dirs) = Inr u \<Longrightarrow>
     fst (open_xml_files env dirs)
       = [Cw_open PRI (tmp_out_repo dirs @ ''/primary.xml.gz'') True,
          Cw_open FIL (tmp_out_repo dirs @ ''/filelists.xml.gz'') True,
          Cw_open OTH (tmp_out_repo dirs @ ''/other.xml.gz'') True]"
  by (simp add: open_xml_files_def Let_def split: if_splits)

lemma open_databases_plain: "only {K_plain} (open_databases options dirs)"
  by (simp add: open_databases_def)

lemma after_staging_plain: "only {K_plain} (fst (after_staging env options dirs))"
  by (cases "open_xml_files env dirs"; cases "snd (open_xml_files env dirs)")
     (use open_xml_files_plain [of env dirs] copy_groupfile_plain [of env options dirs]
        load_old_metadata_plain [of env options dirs] open_databases_plain [of options dirs]
      in \<open>auto simp: after_staging_def and_then_def case_prod_unfold g_thread_pool_new_def\<close>)

lemma after_staging_Inr:
  assumes "after_staging env options dirs = (es, Inr vars)"
  shows "\<exists>a. es = a @ [Cw_open PRI (tmp_out_repo dirs @ ''/primary.xml.gz'') True,
                       Cw_open FIL (tmp_out_repo dirs @ ''/filelists.xml.gz'') True,
                       Cw_open OTH (tmp_out_repo dirs @ ''/other.xml.gz'') True]
                 @ open_databases options dirs @ [G_thread_pool_new 0]"
    and "pool_max_threads (pool_of vars) = 0" and "pool_queue (pool_of vars) = []"
    and "cmd_options vars = options" and "dirs_of vars = dirs"
    and "old_metadata_of vars = snd (load_old_metadata env options dirs)"
proof -
  obtain xs r where ox: "open_xml_files env dirs = (xs, r)" by (cases "open_xml_files env dirs")
  with assms obtain u where r: "r = Inr u"
    by (cases r) (auto simp: after_staging_def and_then_def case_prod_unfold)
  with ox have xs: "xs = [Cw_open PRI (tmp_out_repo dirs @ ''/primary.xml.gz'') True,
          Cw_open FIL (tmp_out_repo dirs @ ''/filelists.xml.gz'') True,
          Cw_open OTH (tmp_out_repo dirs @ ''/other.xml.gz'') True]"
    using open_xml_files_Inr [of env dirs u] by simp
  from assms ox r have es: "es = (fst (copy_groupfile env options dirs)
        @ fst (load_old_metadata env options dirs)) @ xs
        @ open_databases options dirs @ [G_thread_pool_new 0]"
    and vars: "vars = \<lparr>cmd_options = options, dirs_of = dirs,
          groupfile_of = snd (copy_groupfile env options dirs),
          old_metadata_of = snd (load_old_metadata env options dirs),
          pool_of = snd (g_thread_pool_new (init_user_data env options dirs
                      (snd (load_old_metadata env options dirs))) 0)\<rparr>"
    by (auto simp: after_staging_def and_then_def case_prod_unfold g_thread_pool_new_def)
  from es xs show "\<exists>a. es = a @ [Cw_open PRI (tmp_out_repo dirs @ ''/primary.xml.gz'') True,
                       Cw_open FIL (tmp_out_repo dirs @ ''/filelists.xml.gz'') True,
                       Cw_open OTH (tmp_out_repo dirs @ ''/other.xml.gz'') True]
                 @ open_databases options dirs @ [G_thread_pool_new 0]"
    by blast
  from vars show "pool_max_threads (pool_of vars) = 0" "pool_queue (pool_of vars) = []"
    "cmd_options vars = options" "dirs_of vars = dirs"
    "old_metadata_of vars = snd (load_old_metadata env options dirs)"
    by (simp_all add: g_thread_pool_new_def)
qed

text \<open>The three ways \<open>startup\<close> can go.\<close>

lemma startup_cases:
  assumes "startup env = (es, r)"
  obtains
    (early) status where "r = Inl status" "only {K_plain} es"
  | (no_staging) pc d res m where "r = Inl 1" "es = pc @ [G_mkdir d res, G_critical m]"
      "res \<noteq> MKDIR_OK" "only {K_plain} pc"
  | (staged) pc options dirs rest where
      "es = pc @ [G_mkdir (tmp_out_repo dirs) MKDIR_OK,
                  Assign_tmp_repodata_path (Some (tmp_out_repo dirs))] @ rest"
      "only {K_plain} pc" "only {K_plain} rest"
      "r = Inl 1 \<or> (\<exists>b. rest = Sigaction_SIGINT True # b
                        \<and> after_staging env options dirs = (b, r))"
proof (cases "parse_and_check env")
  case (Pair pc r0)
  have pc: "only {K_plain} pc" using parse_and_check_plain [of env] Pair by simp
  show thesis
  proof (cases r0)
    case (Inl status)
    with assms Pair have "r = Inl status" "es = pc"
      by (simp_all add: startup_def and_then_def)
    with pc early show thesis by simp
  next
    case (Inr v)
    obtain options indir where v: "v = (options, indir)" by (cases v)
    define dirs where "dirs = set_paths env options indir"
    show thesis
    proof (cases "g_mkdir env (tmp_out_repo dirs)")
      case MKDIR_OK
      show thesis
      proof (cases "sigaction env")
        case True
        obtain b rb where b: "after_staging env options dirs = (b, rb)"
          by (cases "after_staging env options dirs")
        from assms Pair Inr v MKDIR_OK True b have
          "es = pc @ [G_mkdir (tmp_out_repo dirs) MKDIR_OK,
                  Assign_tmp_repodata_path (Some (tmp_out_repo dirs))]
                @ (Sigaction_SIGINT True # b)" "r = rb"
          by (simp_all add: startup_def and_then_def create_staging_def dirs_def)
        moreover have "only {K_plain} (Sigaction_SIGINT True # b)"
          using after_staging_plain [of env options dirs] b by simp
        ultimately show thesis using pc b staged [of pc dirs "Sigaction_SIGINT True # b" options]
          by blast
      next
        case False
        from assms Pair Inr v MKDIR_OK False have
          "es = pc @ [G_mkdir (tmp_out_repo dirs) MKDIR_OK,
                  Assign_tmp_repodata_path (Some (tmp_out_repo dirs))]
                @ [Sigaction_SIGINT False, G_critical ''sigaction()'']" "r = Inl 1"
          by (simp_all add: startup_def and_then_def create_staging_def dirs_def)
        then show thesis
          using pc staged [of pc dirs "[Sigaction_SIGINT False, G_critical ''sigaction()'']"]
          by simp
      qed
    next
      case MKDIR_EEXIST
      with assms Pair Inr v have "r = Inl 1"
        "es = pc @ [G_mkdir (tmp_out_repo dirs) MKDIR_EEXIST,
            G_critical (''Temporary repodata directory: '' @ tmp_out_repo dirs
                        @ '' already exists!'')]"
        by (simp_all add: startup_def and_then_def create_staging_def dirs_def)
      with pc no_staging show thesis by blast
    next
      case MKDIR_ERROR
      with assms Pair Inr v have "r = Inl 1"
        "es = pc @ [G_mkdir (tmp_out_repo dirs) MKDIR_ERROR,
            G_critical (''Error while creating temporary repodata directory ''
                        @ tmp_out_repo dirs)]"
        by (simp_all add: startup_def and_then_def create_staging_def dirs_def)
      with pc no_staging show thesis by blast
    qed
  qed
qed

lemma startup_kinds: "only {K_plain, K_mkdir, K_assign} (fst (startup env))"
proof (cases "startup env")
  case (Pair es r)
  then have "only {K_plain, K_mkdir, K_assign} es"
    by (cases rule: startup_cases) (auto simp: only_def)
  with Pair show ?thesis by simp
qed


subsection \<open>The walk only queues\<close>

lemma add_task_inv: "walk_inv w \<Longrightarrow> walk_inv (add_task env task w)"
  by (simp add: walk_inv_def add_task_def g_thread_pool_push_def dispatch_def)

lemma scan_entry_inv: "walk_inv w \<Longrightarrow> walk_inv (scan_entry env options indir dirname fname w)"
  by (auto simp: scan_entry_def Let_def add_task_inv) (simp_all add: walk_inv_def)

lemma scan_dir_inv: "walk_inv w \<Longrightarrow> walk_inv (scan_dir env options indir dirname names w)"
  by (induction names arbitrary: w) (simp_all add: scan_entry_inv)

lemma walk_inv_sub_dirs: "walk_inv (w\<lparr>sub_dirs := ds\<rparr>) = walk_inv w"
  by (simp add: walk_inv_def)

lemma walk_keeps_inv:
  "walk_inv w \<Longrightarrow> walk fuel env options indir w = Some w' \<Longrightarrow> walk_inv w'"
proof (induction fuel arbitrary: w)
  case 0
  then show ?case by (simp split: if_splits)
next
  case (Suc fuel)
  show ?case
  proof (cases "sub_dirs w")
    case Nil
    with Suc.prems show ?thesis by simp
  next
    case (Cons dirname rest)
    show ?thesis
    proof (cases "g_dir_read env dirname")
      case None
      have "walk_inv (w\<lparr>sub_dirs := rest,
                events := events w @ [G_warning (''Cannot open directory: '' @ dirname)]\<rparr>)"
        using Suc.prems(1) by (simp add: walk_inv_def)
      with Suc.IH Suc.prems(2) Cons None show ?thesis by simp
    next
      case (Some names)
      have "walk_inv (scan_dir env options indir dirname names (w\<lparr>sub_dirs := rest\<rparr>))"
        using Suc.prems(1) by (simp add: scan_dir_inv walk_inv_sub_dirs)
      with Suc.IH Suc.prems(2) Cons Some show ?thesis by simp
    qed
  qed
qed

lemma include_pkg_inv: "walk_inv w \<Longrightarrow> walk_inv (include_pkg env options indir rel w)"
  by (simp add: include_pkg_def Let_def add_task_inv)

lemma use_pkglist_inv: "walk_inv w \<Longrightarrow> walk_inv (use_pkglist env options indir rels w)"
  by (induction rels arbitrary: w) (simp_all add: include_pkg_inv)

lemma collect_packages_inv:
  assumes "pool_max_threads p = 0" "pool_queue p = []"
    and "collect_packages fuel env options indir p = Some w"
  shows "walk_inv w"
proof -
  have w0: "walk_inv \<lparr>sub_dirs = [], pool = p, package_count = 0, events = []\<rparr>"
    using assms(1,2) by (simp add: walk_inv_def)
  show ?thesis
  proof (cases "opt_include_pkgs options = []")
    case True
    with assms(3) have "walk fuel env options indir
        (\<lparr>sub_dirs = [], pool = p, package_count = 0, events = []\<rparr>\<lparr>sub_dirs := [butlast indir]\<rparr>)
        = Some w"
      by (simp add: collect_packages_def)
    moreover have "walk_inv (\<lparr>sub_dirs = [], pool = p, package_count = 0, events = []\<rparr>
                               \<lparr>sub_dirs := [butlast indir]\<rparr>)"
      using w0 by (simp only: walk_inv_sub_dirs)
    ultimately show ?thesis by (rule walk_keeps_inv [rotated])
  next
    case False
    with assms(3) have "w = use_pkglist env options indir (opt_include_pkgs options)
        \<lparr>sub_dirs = [], pool = p, package_count = 0, events = []\<rparr>"
      by (simp add: collect_packages_def)
    with w0 show ?thesis by (simp add: use_pkglist_inv)
  qed
qed

subsection \<open>The workers\<close>

lemma worker_projections:
  "pushed_tasks (map (Worker task) es) = [] \<and> declared_packages s (map (Worker task) es) = []
   \<and> max_threads_set (map (Worker task) es) = []"
  by (induction es) simp_all

lemma write_sink_counts:
  "packages_written s (map (Worker task) (write_sink s' st frag pkg)) = (if s' = s then 1 else 0)
   \<and> tasks_dropped (map (Worker task) (write_sink s' st frag pkg)) = 0"
  by (simp add: write_sink_def)

lemma write_sinks_counts:
  "packages_written s (map (Worker task) (write_sinks udata pkg res)) = 1
   \<and> tasks_dropped (map (Worker task) (write_sinks udata pkg res)) = 0"
  by (cases s) (simp_all add: write_sinks_def write_sink_counts)

lemma dumper_thread_counts:
  "packages_written s (map (Worker task) (fst (dumper_thread env udata t)))
     + tasks_dropped (map (Worker task) (fst (dumper_thread env udata t))) = 1"
  by (simp add: dumper_thread_def cached_events_def fresh_events_def Let_def
      write_sinks_counts call_package_from_file_def
      split: option.splits bool.splits)

lemma run_tasks_counts:
  "packages_written s (fst (run_tasks env udata tasks))
     + tasks_dropped (fst (run_tasks env udata tasks)) = length tasks"
proof (induction tasks arbitrary: udata)
  case Nil
  then show ?case by simp
next
  case (Cons task tasks)
  have "packages_written s (map (Worker task) (fst (dumper_thread env udata task)))
     + tasks_dropped (map (Worker task) (fst (dumper_thread env udata task))) = 1"
    by (rule dumper_thread_counts)
  moreover have "packages_written s (fst (run_tasks env (snd (dumper_thread env udata task)) tasks))
     + tasks_dropped (fst (run_tasks env (snd (dumper_thread env udata task)) tasks)) = length tasks"
    by (rule Cons.IH)
  ultimately show ?case by (simp add: case_prod_unfold)
qed

lemma run_tasks_kinds: "only {K_worker} (fst (run_tasks env udata tasks))"
  by (induction tasks arbitrary: udata) (simp_all add: case_prod_unfold)

lemma run_pool_events:
  "fst (run_pool env options w)
     = G_thread_pool_set_max_threads (opt_workers options)
       # (if 0 < opt_workers options
          then fst (run_tasks env ((pool_user_data (pool w))\<lparr>ud_package_count := package_count w\<rparr>)
                     (pool_queue (pool w)))
          else [])
       @ [G_thread_pool_free]"
  by (simp add: run_pool_def g_thread_pool_set_max_threads_def dispatch_def Let_def
      case_prod_unfold)

lemma run_pool_kinds: "only {K_set_max, K_worker, K_plain} (fst (run_pool env options w))"
  by (auto simp: run_pool_events intro: only_mono [OF run_tasks_kinds])

lemma run_tasks_max_threads: "max_threads_set (fst (run_tasks env udata tasks)) = []"
  by (rule only_no_set_max [OF run_tasks_kinds]) simp

lemma run_pool_max_threads: "max_threads_set (fst (run_pool env options w)) = [opt_workers options]"
  by (simp add: run_pool_events run_tasks_max_threads)

lemma run_pool_counts:
  "0 < opt_workers options \<Longrightarrow>
   packages_written s (fst (run_pool env options w)) + tasks_dropped (fst (run_pool env options w))
     = length (pool_queue (pool w))"
  by (simp add: run_pool_events run_tasks_counts)

lemma run_pool_frozen:
  "\<not> 0 < opt_workers options \<Longrightarrow> list_all (\<lambda>e. \<not> is_Worker e) (fst (run_pool env options w))"
  by (simp add: run_pool_events)

lemma write_headers_projections:
  "declared_packages s (write_headers n) = [n] \<and> only {K_header} (write_headers n)"
  by (cases s) (simp_all add: write_headers_def)


subsection \<open>The last sections\<close>

lemma only_memD: "only K es \<Longrightarrow> e \<in> set es \<Longrightarrow> kind_of e \<in> K"
  by (simp add: only_def)

lemma move_files_kinds: "only {K_plain, K_rename} (move_files env dirs names)"
  by (induction names) (simp_all add: Let_def)

lemma move_old_repodata_Inl:
  "snd (move_old_repodata env dirs) = Inl status \<Longrightarrow>
     status = 1
     \<and> fst (move_old_repodata env dirs)
       = [Call ''remove_metadata'' [out_dir dirs], G_dir_open (out_repo dirs) False,
          G_critical (''Cannot open directory: '' @ out_repo dirs)]"
  by (simp add: move_old_repodata_def split: if_splits option.splits)

lemma move_old_repodata_Inr:
  "snd (move_old_repodata env dirs) = Inr u \<Longrightarrow>
     (\<exists>a b. fst (move_old_repodata env dirs) = a @ b \<and> only {K_plain, K_rename} b
        \<and> (a = [] \<or> a = [Call ''remove_metadata'' [out_dir dirs],
                          G_dir_open (out_repo dirs) True]))"
proof (cases "out_repo_exists env (out_repo dirs)")
  case False
  then show ?thesis by (simp add: move_old_repodata_def)
next
  case True
  assume "snd (move_old_repodata env dirs) = Inr u"
  with True obtain names where names: "out_repo_read env (out_repo dirs) = Some names"
    by (auto simp: move_old_repodata_def split: option.splits)
  have "fst (move_old_repodata env dirs)
      = [Call ''remove_metadata'' [out_dir dirs], G_dir_open (out_repo dirs) True]
        @ (move_files env dirs names
           @ (if g_rmdir env (out_repo dirs)
              then [Call ''g_rmdir'' [out_repo dirs]]
              else [Call ''g_rmdir'' [out_repo dirs],
                    G_critical (''Cannot remove '' @ out_repo dirs)]))"
    using True names by (simp add: move_old_repodata_def)
  moreover have "only {K_plain, K_rename}
        (move_files env dirs names
           @ (if g_rmdir env (out_repo dirs)
              then [Call ''g_rmdir'' [out_repo dirs]]
              else [Call ''g_rmdir'' [out_repo dirs],
                    G_critical (''Cannot remove '' @ out_repo dirs)]))"
    by (simp add: move_files_kinds)
  ultimately show ?thesis by blast
qed

lemma swap_repodata_kinds: "only {K_plain, K_rename} (swap_repodata env dirs)"
  by (simp add: swap_repodata_def)

lemma fill_record_plain: "only {K_plain} (fst (fill_record env options dirs r))"
  by (simp add: fill_record_def split: option.splits)

lemma fill_records_plain: "only {K_plain} (fst (fill_records env options dirs rs))"
  by (induction rs) (simp_all add: case_prod_unfold fill_record_plain)

lemma groupfile_records_plain: "only {K_plain} (fst (groupfile_records env options dirs g))"
  by (simp add: groupfile_records_def Let_def case_prod_unfold split: option.splits)

lemma compress_dbs_plain: "only {K_plain} (compress_dbs env options dbs)"
  by (induction dbs) simp_all

lemma database_records_plain: "only {K_plain} (fst (database_records env options dirs xs))"
  by (simp add: database_records_def Let_def case_prod_unfold fill_record_plain)

lemma rename_files_plain: "only {K_plain} (fst (rename_files env dirs rs))"
  by (induction rs rule: rename_files.induct) (simp_all add: case_prod_unfold)

lemma make_repomd_shape:
  "\<exists>body. fst (make_repomd env options dirs g)
            = body @ [Xml_repomd (snd (make_repomd env options dirs g) \<noteq> None)]
          \<and> only {K_plain} body"
  by (simp add: make_repomd_def case_prod_unfold fill_record_plain groupfile_records_plain
      database_records_plain rename_files_plain)

lemma write_repomd_cases:
  "(snd (write_repomd env dirs x) = Inl 1
      \<and> fst (write_repomd env dirs x)
            = [Fopen (out_repo dirs @ ''repomd.xml'') (fopen env (out_repo dirs @ ''repomd.xml'')),
               G_critical ''Generate of repomd.xml failed'']
      \<and> (\<not> fopen env (out_repo dirs @ ''repomd.xml'') \<or> x = None))
   \<or> (snd (write_repomd env dirs x) = Inr ()
      \<and> (\<exists>xml. x = Some xml
           \<and> fst (write_repomd env dirs x)
             = [Fopen (out_repo dirs @ ''repomd.xml'') True, Fputs_repomd xml,
                Call ''fclose'' []]))"
  by (cases "fopen env (out_repo dirs @ ''repomd.xml'')"; cases x)
     (simp_all add: write_repomd_def)

lemma publish_shape:
  "only {K_plain, K_rename, K_final} (fst (publish env vars))
   \<and> Cw_puts_footer PRI \<in> set (fst (publish env vars))
   \<and> (snd (publish env vars) = Inl 1
        \<and> (\<forall>x. Fputs_repomd x \<notin> set (fst (publish env vars)))
        \<and> ((\<exists>p. G_dir_open p False \<in> set (fst (publish env vars)))
           \<or> (\<exists>p. Fopen p False \<in> set (fst (publish env vars)))
           \<or> Xml_repomd False \<in> set (fst (publish env vars)))
      \<or> snd (publish env vars) = Inr ()
        \<and> (\<exists>x. Fputs_repomd x \<in> set (fst (publish env vars)))
        \<and> (\<forall>p. G_dir_open p False \<notin> set (fst (publish env vars)))
        \<and> (\<forall>p. Fopen p False \<notin> set (fst (publish env vars)))
        \<and> Xml_repomd False \<notin> set (fst (publish env vars)))"
proof (cases "snd (move_old_repodata env (dirs_of vars))")
  case (Inl status)
  from move_old_repodata_Inl [OF Inl] have
    "publish env vars
       = (close_sinks @ [Call ''remove_metadata'' [out_dir (dirs_of vars)],
            G_dir_open (out_repo (dirs_of vars)) False,
            G_critical (''Cannot open directory: '' @ out_repo (dirs_of vars))], Inl 1)"
    using Inl
    by (cases "move_old_repodata env (dirs_of vars)") (simp add: publish_def and_then_def)
  then show ?thesis by (auto simp: close_sinks_def)
next
  case (Inr u)
  from move_old_repodata_Inr [OF Inr] obtain a b where
    mv: "fst (move_old_repodata env (dirs_of vars)) = a @ b" and b: "only {K_plain, K_rename} b"
    and a: "a = [] \<or> a = [Call ''remove_metadata'' [out_dir (dirs_of vars)],
                          G_dir_open (out_repo (dirs_of vars)) True]"
    by blast
  define x where "x = snd (make_repomd env (cmd_options vars) (dirs_of vars) (groupfile_of vars))"
  obtain mk where mk: "fst (make_repomd env (cmd_options vars) (dirs_of vars) (groupfile_of vars))
      = mk @ [Xml_repomd (x \<noteq> None)]" and mkp: "only {K_plain} mk"
    using make_repomd_shape [of env "cmd_options vars" "dirs_of vars" "groupfile_of vars"]
    unfolding x_def by blast
  define sw where "sw = swap_repodata env (dirs_of vars)"
  have swk: "only {K_plain, K_rename} sw" unfolding sw_def by (rule swap_repodata_kinds)
  define wr where "wr = write_repomd env (dirs_of vars) x"
  have pub: "publish env vars
      = (close_sinks @ (a @ b) @ sw @ (mk @ [Xml_repomd (x \<noteq> None)]) @ fst wr, snd wr)"
    using Inr mv mk
    by (cases "move_old_repodata env (dirs_of vars)")
       (simp add: publish_def and_then_def case_prod_unfold x_def sw_def wr_def)
  note wide = only_mono [OF b, of "{K_plain, K_rename, K_final}"]
    only_mono [OF swk, of "{K_plain, K_rename, K_final}"]
    only_mono [OF mkp, of "{K_plain, K_rename, K_final}"]
  from write_repomd_cases [of env "dirs_of vars" x]
  consider (bad) "snd wr = Inl 1"
      "fst wr = [Fopen (out_repo (dirs_of vars) @ ''repomd.xml'')
                   (fopen env (out_repo (dirs_of vars) @ ''repomd.xml'')),
                 G_critical ''Generate of repomd.xml failed'']"
      "\<not> fopen env (out_repo (dirs_of vars) @ ''repomd.xml'') \<or> x = None"
    | (good) xml where "snd wr = Inr ()" "x = Some xml"
      "fst wr = [Fopen (out_repo (dirs_of vars) @ ''repomd.xml'') True, Fputs_repomd xml,
                 Call ''fclose'' []]"
    unfolding wr_def by blast
  then show ?thesis
  proof cases
    case bad
    with a b swk mkp wide show ?thesis
      by (auto simp: pub close_sinks_def dest: only_memD)
  next
    case good
    with a b swk mkp wide show ?thesis
      by (auto simp: pub close_sinks_def dest: only_memD)
  qed
qed

lemma clean_up_shape:
  "\<exists>a. clean_up old_md = a @ [Assign_tmp_repodata_path None, Call ''free_options'' [],
                              Call ''package_parser_shutdown'' []]
       \<and> only {K_plain} a"
  by (simp add: clean_up_def)

lemma finalize_events:
  "fst (finalize env vars)
     = fst (publish env vars)
       @ (case snd (publish env vars) of Inl _ \<Rightarrow> [] | Inr _ \<Rightarrow> clean_up (old_metadata_of vars))"
  by (cases "publish env vars"; cases "snd (publish env vars)")
     (simp_all add: finalize_def and_then_def)

lemma finalize_status:
  "exit_status (snd (finalize env vars)) = exit_status (snd (publish env vars))"
  by (cases "publish env vars"; cases "snd (publish env vars)")
     (simp_all add: finalize_def and_then_def)

lemma finalize_kinds: "only {K_plain, K_rename, K_final, K_assign} (fst (finalize env vars))"
  using publish_shape [of env vars]
  by (auto simp: finalize_events clean_up_def only_def split: sum.splits)


subsection \<open>The shape of a run\<close>

lemma main_cases:
  assumes "main fuel env = Some (tr, status)"
  obtains (exit) "startup env = (tr, Inl status)"
  | (run) es0 vars w where "startup env = (es0, Inr vars)"
      "collect_packages fuel env (cmd_options vars) (in_dir (dirs_of vars)) (pool_of vars) = Some w"
      "tr = es0 @ events w @ write_headers (package_count w)
            @ fst (run_pool env (cmd_options vars) w) @ fst (finalize env vars)"
      "status = exit_status (snd (finalize env vars))"
proof (cases "startup env")
  case (Pair es r)
  show thesis
  proof (cases r)
    case (Inl c)
    with assms Pair have "tr = es" "status = c" by (simp_all add: main_def)
    with Pair Inl exit show thesis by simp
  next
    case (Inr vars)
    with assms Pair obtain w where
      w: "collect_packages fuel env (cmd_options vars) (in_dir (dirs_of vars)) (pool_of vars)
            = Some w"
      by (auto simp: main_def split: option.splits)
    with assms Pair Inr have
      "tr = es @ events w @ write_headers (package_count w)
            @ fst (run_pool env (cmd_options vars) w) @ fst (finalize env vars)"
      "status = exit_status (snd (finalize env vars))"
      by (simp_all add: main_def case_prod_unfold)
    with Pair Inr w run show thesis by simp
  qed
qed

lemma startup_Inr:
  assumes "startup env = (es0, Inr vars)"
  obtains pc a where
    "es0 = pc @ [G_mkdir (tmp_out_repo (dirs_of vars)) MKDIR_OK,
                 Assign_tmp_repodata_path (Some (tmp_out_repo (dirs_of vars)))]
           @ (Sigaction_SIGINT True # a
              @ [Cw_open PRI (tmp_out_repo (dirs_of vars) @ ''/primary.xml.gz'') True,
                 Cw_open FIL (tmp_out_repo (dirs_of vars) @ ''/filelists.xml.gz'') True,
                 Cw_open OTH (tmp_out_repo (dirs_of vars) @ ''/other.xml.gz'') True]
              @ open_databases (cmd_options vars) (dirs_of vars) @ [G_thread_pool_new 0])"
    "only {K_plain} pc" "only {K_plain} a"
    "pool_max_threads (pool_of vars) = 0" "pool_queue (pool_of vars) = []"
  using assms
proof (cases rule: startup_cases)
  case (staged pc options dirs rest)
  then obtain b where rest: "rest = Sigaction_SIGINT True # b"
    and b: "after_staging env options dirs = (b, Inr vars)"
    by auto
  from after_staging_Inr [OF b] obtain a where
    a: "b = a @ [Cw_open PRI (tmp_out_repo dirs @ ''/primary.xml.gz'') True,
                 Cw_open FIL (tmp_out_repo dirs @ ''/filelists.xml.gz'') True,
                 Cw_open OTH (tmp_out_repo dirs @ ''/other.xml.gz'') True]
             @ open_databases options dirs @ [G_thread_pool_new 0]"
    and vars: "pool_max_threads (pool_of vars) = 0" "pool_queue (pool_of vars) = []"
      "cmd_options vars = options" "dirs_of vars = dirs"
    by blast
  from staged(3) rest a have "only {K_plain} a" by simp
  with staged(1,2) rest a vars that [of pc a] show thesis by simp
qed simp_all

text \<open>The events of a whole run, section by section, with what each section may hold.\<close>

lemma run_sections:
  assumes "startup env = (es0, Inr vars)"
    and "collect_packages fuel env (cmd_options vars) (in_dir (dirs_of vars)) (pool_of vars)
           = Some w"
  shows "only {K_plain, K_mkdir, K_assign} es0" and "walk_inv w"
    and "only {K_plain, K_push} (events w)"
    and "only {K_header} (write_headers (package_count w))"
    and "only {K_set_max, K_worker, K_plain} (fst (run_pool env (cmd_options vars) w))"
    and "only {K_plain, K_rename, K_final, K_assign} (fst (finalize env vars))"
proof -
  show "only {K_plain, K_mkdir, K_assign} es0"
    using startup_kinds [of env] assms(1) by simp
  from assms(1) have "pool_max_threads (pool_of vars) = 0" "pool_queue (pool_of vars) = []"
    by (auto elim: startup_Inr)
  then show inv: "walk_inv w" using assms(2) by (rule collect_packages_inv)
  then show "only {K_plain, K_push} (events w)" by (simp add: walk_inv_def)
  show "only {K_header} (write_headers (package_count w))"
    by (simp add: write_headers_def)
  show "only {K_set_max, K_worker, K_plain} (fst (run_pool env (cmd_options vars) w))"
    by (rule run_pool_kinds)
  show "only {K_plain, K_rename, K_final, K_assign} (fst (finalize env vars))"
    by (rule finalize_kinds)
qed

subsection \<open>Fuel, and the table the workers see\<close>

text \<open>
  A run that ends within some fuel is the same run with more; with a package list no
  fuel is needed. The table in the user data of the pool is the one loaded.
\<close>

lemma walk_more_fuel:
  "walk fuel env options indir w = Some w' \<Longrightarrow> walk (fuel + k) env options indir w = Some w'"
proof (induction fuel arbitrary: w)
  case 0
  then show ?case by (cases k) (simp_all split: if_splits)
next
  case (Suc fuel)
  then show ?case
    by (cases "sub_dirs w") (auto split: option.splits)
qed

lemma main_more_fuel:
  assumes "main fuel env = Some r"
  shows "main (fuel + k) env = Some r"
proof (cases "startup env")
  case (Pair es x)
  show ?thesis
  proof (cases x)
    case (Inl status)
    with assms Pair show ?thesis by (simp add: main_def)
  next
    case (Inr vars)
    with assms Pair obtain w where
      w: "collect_packages fuel env (cmd_options vars) (in_dir (dirs_of vars)) (pool_of vars)
            = Some w"
      by (auto simp: main_def split: option.splits)
    then have "collect_packages (fuel + k) env (cmd_options vars) (in_dir (dirs_of vars))
                 (pool_of vars) = Some w"
      by (auto simp: collect_packages_def Let_def walk_more_fuel split: if_splits)
    with assms Pair Inr w show ?thesis by (simp add: main_def)
  qed
qed

lemma main_with_pkglist:
  assumes "startup env = (es, Inr vars)" and "opt_include_pkgs (cmd_options vars) \<noteq> []"
  shows "main fuel env \<noteq> None"
  using assms by (simp add: main_def collect_packages_def case_prod_unfold)

lemma startup_old_metadata:
  assumes "startup env = (es, Inr vars)"
  shows "ud_old_metadata (pool_user_data (pool_of vars))
       = snd (load_old_metadata env (cmd_options vars) (dirs_of vars))"
  using assms
proof (cases rule: startup_cases)
  case (staged pc options dirs rest)
  then obtain b where b: "after_staging env options dirs = (b, Inr vars)" by auto
  then have "vars = \<lparr>cmd_options = options, dirs_of = dirs,
          groupfile_of = snd (copy_groupfile env options dirs),
          old_metadata_of = snd (load_old_metadata env options dirs),
          pool_of = snd (g_thread_pool_new (init_user_data env options dirs
                      (snd (load_old_metadata env options dirs))) 0)\<rparr>"
    by (cases "open_xml_files env dirs"; cases "snd (open_xml_files env dirs)")
       (auto simp: after_staging_def and_then_def case_prod_unfold)
  then show ?thesis by (simp add: g_thread_pool_new_def init_user_data_def)
qed simp_all

section \<open>Evaluating a run\<close>

text \<open>The definitions a run on a given environment is computed with.\<close>

lemmas run_defs =
  main_def startup_def after_staging_def parse_and_check_def and_then_def set_paths_def
  create_staging_def copy_groupfile_def load_old_metadata_def open_xml_files_def
  open_databases_def init_user_data_def g_thread_pool_new_def collect_packages_def
  locate_and_load_xml_metadata_def scan_entry_def g_str_has_suffix_def allowed_file_def
  add_task_def g_thread_pool_push_def dispatch_def write_headers_def run_pool_def
  g_thread_pool_set_max_threads_def dumper_thread_def cached_events_def fresh_events_def
  seen_record_def left_record_def Let_def write_sinks_def write_sink_def
  finalize_def publish_def close_sinks_def move_old_repodata_def swap_repodata_def
  make_repomd_def fill_record_def groupfile_records_def database_records_def
  write_repomd_def clean_up_def new_repomdrecord_def set_locations_def
  task_location_href_def call_package_from_file_def status_of_def trace_of_def
  include_pkg_def sqlite_compression_of_def groupfile_compression_of_def
  eval_nat_numeral

lemmas example_defs =
  example_env_def example_options_def example_package_def example_task_def broken_task_def
  linked_task_def example_writes_def

text \<open>The run on the example repository, computed once.\<close>

lemma example_run: "main 2 example_env = Some (example_trace, 0)"
  by (simp add: run_defs example_defs example_trace_def)

lemmas example_trace_defs =
  example_trace_def example_writes_def example_task_def broken_task_def linked_task_def
  trace_of_def status_of_def

section \<open>The declared number of packages\<close>

text \<open>
  C1, as the code has it. In every run of \<open>main\<close> that writes the preambles and starts
  the pool with at least one worker, the \<open>packages="N"\<close> written into each of the three
  documents is the number of tasks pushed to the pool, and that is the number of package
  fragments written into the document plus the number of tasks the workers dropped
  (\<open>stat\<close> failed, or the package could not be read). So N is the number of
  \<open>package\<close> elements of the document exactly when no task was dropped.
\<close>

theorem C1_declared_count:
  assumes "main fuel env = Some (tr, status)"
    and "n \<in> set (declared_packages s tr)"
    and "W \<in> set (max_threads_set tr)" and "0 < W"
  shows "declared_packages s tr = [n]
       \<and> n = int (length (pushed_tasks tr))
       \<and> n = int (packages_written s tr) + int (tasks_dropped tr)"
  using assms(1)
proof (cases rule: main_cases)
  case exit
  then have "only {K_plain, K_mkdir, K_assign} tr" using startup_kinds [of env] by simp
  then have "declared_packages s tr = []" by (rule only_no_header) simp
  with assms(2) show ?thesis by simp
next
  case (run es0 vars w)
  note k = run_sections [OF run(1,2)]
  let ?p = "fst (run_pool env (cmd_options vars) w)"
  let ?f = "fst (finalize env vars)"
  have decl: "declared_packages s tr = [package_count w]"
    using only_no_header [OF k(1), of s] only_no_header [OF k(3), of s]
      only_no_header [OF k(5), of s] only_no_header [OF k(6), of s]
      write_headers_projections [of s "package_count w"]
    by (simp add: run(3))
  have push: "pushed_tasks tr = pool_queue (pool w)"
    using only_no_push [OF k(1)] only_no_push [OF k(4)] only_no_push [OF k(5)]
      only_no_push [OF k(6)] k(2)
    by (simp add: run(3) walk_inv_def)
  have "max_threads_set tr = [opt_workers (cmd_options vars)]"
    using only_no_set_max [OF k(1)] only_no_set_max [OF k(3)] only_no_set_max [OF k(4)]
      only_no_set_max [OF k(6)] run_pool_max_threads [of env "cmd_options vars" w]
    by (simp add: run(3))
  with assms(3,4) have pos: "0 < opt_workers (cmd_options vars)" by simp
  have "packages_written s tr = packages_written s ?p \<and> tasks_dropped tr = tasks_dropped ?p"
    using only_no_worker [OF k(1), of s] only_no_worker [OF k(3), of s]
      only_no_worker [OF k(4), of s] only_no_worker [OF k(6), of s]
    by (simp add: run(3))
  then have "packages_written s tr + tasks_dropped tr = length (pool_queue (pool w))"
    using run_pool_counts [OF pos, of s env w] by simp
  moreover have "package_count w = int (length (pool_queue (pool w)))"
    using k(2) by (simp add: walk_inv_def)
  ultimately show ?thesis using decl push assms(2) by simp
qed

theorem C1_declared_count_witness:
  "main 2 example_env = Some (trace_of (main 2 example_env), 0)
   \<and> 3 \<in> set (declared_packages PRI (trace_of (main 2 example_env)))
   \<and> 2 \<in> set (max_threads_set (trace_of (main 2 example_env)))
   \<and> (0::int) < 2
   \<and> length (pushed_tasks (trace_of (main 2 example_env))) = 3
   \<and> tasks_dropped (trace_of (main 2 example_env)) = 1
   \<and> (3::int) = int (packages_written PRI (trace_of (main 2 example_env)))
                 + int (tasks_dropped (trace_of (main 2 example_env)))"
  using C1_declared_count [of 2 example_env "trace_of (main 2 example_env)" 0 3 PRI 2]
  by (simp add: example_run example_trace_defs)

text \<open>
  The claim as it is stated fails on the example repository: the run exits with status 0,
  each of the three preambles declares 3 packages, and each document receives 2
  fragments, since the task of \<open>broken.rpm\<close> is dropped after the preambles are written.
\<close>

theorem C1_counterexample:
  "status_of (main 2 example_env) = Some 0
   \<and> declared_packages PRI (trace_of (main 2 example_env)) = [3]
   \<and> packages_written PRI (trace_of (main 2 example_env)) = 2
   \<and> declared_packages FIL (trace_of (main 2 example_env)) = [3]
   \<and> packages_written FIL (trace_of (main 2 example_env)) = 2
   \<and> declared_packages OTH (trace_of (main 2 example_env)) = [3]
   \<and> packages_written OTH (trace_of (main 2 example_env)) = 2"
  by (simp add: example_run example_trace_defs)

section \<open>The pool starts after the preambles\<close>

text \<open>
  C7. In every run in which a worker does anything, the run splits into what comes before
  the three preambles, the preambles with the count \<open>N\<close> followed by the raising of the
  pool's limit to a positive \<open>W\<close>, and the rest. No worker does anything in the first
  part; in it the three documents are opened, then the pool is created with limit 0, and
  all the tasks are pushed after that; \<open>N\<close> is their number, and no task is pushed later.
\<close>

theorem C7_no_task_before_preambles:
  assumes "main fuel env = Some (tr, status)" and "Worker task e \<in> set tr"
  shows "\<exists>pre post a b c p1 p2 p3 N W.
           tr = pre @ [Cw_printf_header PRI N, Cw_printf_header FIL N, Cw_printf_header OTH N,
                       G_thread_pool_set_max_threads W] @ post
         \<and> list_all (\<lambda>e. \<not> is_Worker e) pre
         \<and> pre = a @ [Cw_open PRI p1 True, Cw_open FIL p2 True, Cw_open OTH p3 True]
                    @ b @ G_thread_pool_new 0 # c
         \<and> pushed_tasks (a @ b) = []
         \<and> N = int (length (pushed_tasks c))
         \<and> pushed_tasks post = []
         \<and> 0 < W"
  using assms(1)
proof (cases rule: main_cases)
  case exit
  then have "only {K_plain, K_mkdir, K_assign} tr" using startup_kinds [of env] by simp
  from only_memD [OF this assms(2)] show ?thesis by simp
next
  case (run es0 vars w)
  note k = run_sections [OF run(1,2)]
  let ?W = "opt_workers (cmd_options vars)"
  let ?N = "package_count w"
  from run(1) obtain pc a0 where
    es0: "es0 = pc @ [G_mkdir (tmp_out_repo (dirs_of vars)) MKDIR_OK,
                 Assign_tmp_repodata_path (Some (tmp_out_repo (dirs_of vars)))]
           @ (Sigaction_SIGINT True # a0
              @ [Cw_open PRI (tmp_out_repo (dirs_of vars) @ ''/primary.xml.gz'') True,
                 Cw_open FIL (tmp_out_repo (dirs_of vars) @ ''/filelists.xml.gz'') True,
                 Cw_open OTH (tmp_out_repo (dirs_of vars) @ ''/other.xml.gz'') True]
              @ open_databases (cmd_options vars) (dirs_of vars) @ [G_thread_pool_new 0])"
    by (rule startup_Inr)
  define a where "a = pc @ [G_mkdir (tmp_out_repo (dirs_of vars)) MKDIR_OK,
                 Assign_tmp_repodata_path (Some (tmp_out_repo (dirs_of vars))),
                 Sigaction_SIGINT True] @ a0"
  define b where "b = open_databases (cmd_options vars) (dirs_of vars)"
  define post where "post = tl (fst (run_pool env (cmd_options vars) w)) @ fst (finalize env vars)"
  have es0': "es0 = a @ [Cw_open PRI (tmp_out_repo (dirs_of vars) @ ''/primary.xml.gz'') True,
                 Cw_open FIL (tmp_out_repo (dirs_of vars) @ ''/filelists.xml.gz'') True,
                 Cw_open OTH (tmp_out_repo (dirs_of vars) @ ''/other.xml.gz'') True]
              @ b @ G_thread_pool_new 0 # []"
    by (simp add: es0 a_def b_def)
  have tr: "tr = (es0 @ events w)
              @ [Cw_printf_header PRI ?N, Cw_printf_header FIL ?N, Cw_printf_header OTH ?N,
                 G_thread_pool_set_max_threads ?W] @ post"
    by (simp add: run(3) write_headers_def post_def run_pool_events)
  have nw: "list_all (\<lambda>e. \<not> is_Worker e) (es0 @ events w)"
    using only_no_worker [OF k(1), of PRI] only_no_worker [OF k(3), of PRI] by simp
  have pab: "pushed_tasks (a @ b) = []"
    using only_no_push [OF k(1)] by (simp add: es0')
  have "pushed_tasks es0 = []" using only_no_push [OF k(1)] by simp
  then have N: "?N = int (length (pushed_tasks (events w)))"
    using k(2) by (simp add: walk_inv_def)
  have "only {K_set_max, K_worker, K_plain} (tl (fst (run_pool env (cmd_options vars) w)))"
    using k(5) by (simp add: run_pool_events)
  then have ppost: "pushed_tasks post = []"
    using only_no_push [OF k(6)] only_no_push [of "{K_set_max, K_worker, K_plain}"]
    by (simp add: post_def)
  have W: "0 < ?W"
  proof (rule ccontr)
    assume "\<not> 0 < ?W"
    then have "list_all (\<lambda>e. \<not> is_Worker e) (fst (run_pool env (cmd_options vars) w))"
      by (rule run_pool_frozen)
    moreover have "list_all (\<lambda>e. \<not> is_Worker e) (write_headers ?N)"
      by (simp add: write_headers_def)
    moreover have "list_all (\<lambda>e. \<not> is_Worker e) (fst (finalize env vars))"
      using only_no_worker [OF k(6), of PRI] by simp
    ultimately have "list_all (\<lambda>e. \<not> is_Worker e) tr" using nw by (simp add: run(3))
    with assms(2) show False by (auto simp: list_all_iff)
  qed
  have pre: "es0 @ events w
      = a @ [Cw_open PRI (tmp_out_repo (dirs_of vars) @ ''/primary.xml.gz'') True,
             Cw_open FIL (tmp_out_repo (dirs_of vars) @ ''/filelists.xml.gz'') True,
             Cw_open OTH (tmp_out_repo (dirs_of vars) @ ''/other.xml.gz'') True]
          @ b @ G_thread_pool_new 0 # events w"
    by (simp add: es0')
  from tr nw pre pab N ppost W show ?thesis by blast
qed

theorem C7_no_task_before_preambles_witness:
  "main 2 example_env = Some (example_trace, 0)
   \<and> Worker example_task (G_LOCK PRI) \<in> set example_trace
   \<and> (\<exists>pre post a b c p1 p2 p3 N W.
         example_trace
           = pre @ [Cw_printf_header PRI N, Cw_printf_header FIL N, Cw_printf_header OTH N,
                    G_thread_pool_set_max_threads W] @ post
         \<and> list_all (\<lambda>e. \<not> is_Worker e) pre
         \<and> pre = a @ [Cw_open PRI p1 True, Cw_open FIL p2 True, Cw_open OTH p3 True]
                    @ b @ G_thread_pool_new 0 # c
         \<and> pushed_tasks (a @ b) = []
         \<and> N = int (length (pushed_tasks c))
         \<and> pushed_tasks post = []
         \<and> 0 < W)"
proof -
  have h1: "main 2 example_env = Some (example_trace, 0)" by (rule example_run)
  have h2: "Worker example_task (G_LOCK PRI) \<in> set example_trace"
    by (simp add: example_trace_defs)
  from C7_no_task_before_preambles [OF h1 h2] h1 h2 show ?thesis by blast
qed

section \<open>The failures that end the run\<close>

lemma final_events_of_run:
  assumes "only {K_plain, K_mkdir, K_assign} es0" "only {K_plain, K_push} ew"
    "only {K_header} hs" "only {K_set_max, K_worker, K_plain} ps"
    "only {K_plain, K_assign} cl" "kind_of e = K_final"
  shows "e \<in> set (es0 @ ew @ hs @ ps @ pub @ cl) \<longleftrightarrow> e \<in> set pub"
  using assms by (auto simp: only_def)

text \<open>
  C4, as the code has it. In every run that reaches the closing of the documents the exit
  status is 0 or 1. It is 1 exactly if the old output \<open>repodata/\<close> cannot be opened for
  moving its files, or \<open>repomd.xml\<close> cannot be opened for writing, or its text was not
  generated; it is 0 exactly if \<open>repomd.xml\<close> is written. The outcome of the rename of
  the staging directory, of the checksum computations and of the compression of the
  databases has no part in it.
\<close>

theorem C4_fatal_failures:
  assumes "main fuel env = Some (tr, status)" and "Cw_puts_footer PRI \<in> set tr"
  shows "(status = 0 \<or> status = 1)
       \<and> (status = 1 \<longleftrightarrow> (\<exists>p. G_dir_open p False \<in> set tr) \<or> (\<exists>p. Fopen p False \<in> set tr)
                           \<or> Xml_repomd False \<in> set tr)
       \<and> (status = 0 \<longleftrightarrow> (\<exists>x. Fputs_repomd x \<in> set tr))"
  using assms(1)
proof (cases rule: main_cases)
  case exit
  then have "only {K_plain, K_mkdir, K_assign} tr" using startup_kinds [of env] by simp
  from only_memD [OF this assms(2)] show ?thesis by simp
next
  case (run es0 vars w)
  note k = run_sections [OF run(1,2)]
  define pub where "pub = fst (publish env vars)"
  define cl where "cl = (case snd (publish env vars) of Inl _ \<Rightarrow> []
                          | Inr _ \<Rightarrow> clean_up (old_metadata_of vars))"
  have cl: "only {K_plain, K_assign} cl"
    by (simp add: cl_def clean_up_def split: sum.splits)
  have tr: "tr = es0 @ events w @ write_headers (package_count w)
                 @ fst (run_pool env (cmd_options vars) w) @ pub @ cl"
    by (simp add: run(3) finalize_events pub_def cl_def)
  note fin = final_events_of_run [OF k(1) k(3) k(4) k(5) cl, of _ pub, folded tr]
  have in_pub: "G_dir_open p False \<in> set tr \<longleftrightarrow> G_dir_open p False \<in> set pub"
    "Fopen p False \<in> set tr \<longleftrightarrow> Fopen p False \<in> set pub"
    "Xml_repomd False \<in> set tr \<longleftrightarrow> Xml_repomd False \<in> set pub"
    "Fputs_repomd x \<in> set tr \<longleftrightarrow> Fputs_repomd x \<in> set pub" for p x
    by (simp_all add: fin)
  have st: "status = exit_status (snd (publish env vars))"
    unfolding run(4) by (rule finalize_status)
  from publish_shape [of env vars] show ?thesis
    unfolding in_pub st pub_def by auto
qed

theorem C4_fatal_failures_witness:
  "main 2 example_env = Some (example_trace, 0)
   \<and> Cw_puts_footer PRI \<in> set example_trace
   \<and> Fputs_repomd ''<repomd>'' \<in> set example_trace
   \<and> Xml_repomd False \<notin> set example_trace"
proof -
  have h1: "main 2 example_env = Some (example_trace, 0)" by (rule example_run)
  have h2: "Cw_puts_footer PRI \<in> set example_trace"
    by (simp add: example_trace_defs)
  have h3: "Fputs_repomd ''<repomd>'' \<in> set example_trace"
    by (simp add: example_trace_defs)
  from C4_fatal_failures [OF h1 h2] h1 h2 h3 show ?thesis by simp
qed

text \<open>
  The claim as it is stated fails where every rename is refused: the rename of the
  staging directory fails, the checksum of \<open>primary.xml.gz\<close> cannot be computed, the
  compression of \<open>primary.sqlite\<close> fails, and the run exits with status 0.
\<close>

theorem C4_counterexample:
  "status_of (main 2 refusing_env) = Some 0
   \<and> G_rename ''/repo/.repodata/'' ''/repo/repodata/'' False \<in> set (trace_of (main 2 refusing_env))
   \<and> Fill_missing_data ''repodata/primary.xml.gz'' False \<in> set (trace_of (main 2 refusing_env))
   \<and> Compress_file ''/repo/repodata/primary.sqlite'' False
        \<in> set (trace_of (main 2 refusing_env))"
  by (simp add: run_defs example_defs refusing_env_def)

section \<open>The cell of the signal handler\<close>

lemma with_cell_fst: "x \<in> set (with_cell es c) \<Longrightarrow> fst x \<in> set es"
  by (induction es arbitrary: c) auto

lemma with_cell_keeps:
  "only K es \<Longrightarrow> K_assign \<notin> K \<Longrightarrow> \<forall>x \<in> set (with_cell es c). snd x = c"
  using only_no_assign by blast

lemma cell_kept:
  "only K es \<Longrightarrow> K_assign \<notin> K \<Longrightarrow> tmp_repodata_path_after es c = c"
  using only_no_assign by blast

lemma after_staging_Inl: "snd (after_staging env options dirs) = Inl c \<Longrightarrow> c = 1"
  by (cases "snd (open_xml_files env dirs)")
     (auto simp: after_staging_def and_then_def case_prod_unfold g_thread_pool_new_def
        open_xml_files_def Let_def split: if_splits sum.splits)

text \<open>The lifetime of the cell in a trace of the shape every staged run has.\<close>

lemma staged_lifetime:
  assumes tr: "tr = pre @ [G_mkdir d MKDIR_OK, Assign_tmp_repodata_path (Some d)] @ mid @ post"
    and pre: "only {K_plain} pre"
    and mid: "only {K_plain, K_push, K_header, K_set_max, K_worker, K_rename, K_final} mid"
    and post: "post = [] \<or> post = [Assign_tmp_repodata_path None, Call ''free_options'' [],
                                    Call ''package_parser_shutdown'' []]"
  shows "(\<forall>x \<in> set (with_cell pre None). snd x = None)
       \<and> (\<forall>x \<in> set (with_cell mid (Some d)). snd x = Some d)
       \<and> (\<forall>src dst r. G_rename src dst r \<in> set tr \<longrightarrow> G_rename src dst r \<in> set mid)
       \<and> (\<forall>src dst r c. (G_rename src dst r, c) \<in> set (with_cell tr None)
             \<longrightarrow> sigint_catcher c = ([Remove_dir d], 1))"
proof -
  have p: "\<forall>x \<in> set (with_cell pre None). snd x = None"
    using pre by (rule with_cell_keeps) simp
  have pc: "tmp_repodata_path_after pre None = None"
    using pre by (rule cell_kept) simp
  have m: "\<forall>x \<in> set (with_cell mid (Some d)). snd x = Some d"
    using mid by (rule with_cell_keeps) simp
  have mc: "tmp_repodata_path_after mid (Some d) = Some d"
    using mid by (rule cell_kept) simp
  have r: "G_rename src dst r \<in> set mid" if "G_rename src dst r \<in> set tr" for src dst r
    using that pre post only_memD [OF pre, of "G_rename src dst r"] by (auto simp: tr)
  have s: "sigint_catcher c = ([Remove_dir d], 1)"
    if "(G_rename src dst r, c) \<in> set (with_cell tr None)" for src dst r c
  proof -
    from that consider "(G_rename src dst r, c) \<in> set (with_cell pre None)"
      | "(G_rename src dst r, c) \<in> set (with_cell mid (Some d))"
      | "(G_rename src dst r, c) \<in> set (with_cell post (Some d))"
      by (auto simp: tr pc mc)
    then show ?thesis
    proof cases
      case 1
      from with_cell_fst [OF this] only_memD [OF pre, of "G_rename src dst r"]
      show ?thesis by simp
    next
      case 2
      with m have "c = Some d" by auto
      then show ?thesis by (simp add: sigint_catcher_def)
    next
      case 3
      from with_cell_fst [OF this] post show ?thesis by auto
    qed
  qed
  from p m r s show ?thesis by blast
qed




section \<open>The order of the old metadata\<close>

lemma loaded_paths_append [simp]: "loaded_paths (xs @ ys) = loaded_paths xs @ loaded_paths ys"
  by (induction xs rule: loaded_paths.induct) simp_all

lemma foldl_update_map_of:
  "foldl (\<lambda>ht (key, pkg). ht(key \<mapsto> pkg)) ht xs = ht ++ map_of (rev xs)"
  by (induction xs arbitrary: ht) (auto simp: map_add_assoc [symmetric])

lemma locate_and_load_table:
  "snd (locate_and_load_xml_metadata env ht p) = ht ++ map_of (rev (snd (repodata env p)))"
  by (simp add: locate_and_load_xml_metadata_def foldl_update_map_of)

lemma load_update_md_paths_table:
  "loaded_paths (fst (load_update_md_paths env ht ps)) = ps
   \<and> snd (load_update_md_paths env ht ps)
     = ht ++ map_of (rev (concat (map (\<lambda>p. snd (repodata env p)) ps)))"
proof (induction ps arbitrary: ht)
  case Nil
  then show ?case by simp
next
  case (Cons p ps)
  have "snd (locate_and_load_xml_metadata env ht p) = ht ++ map_of (rev (snd (repodata env p)))"
    by (rule locate_and_load_table)
  with Cons [of "snd (locate_and_load_xml_metadata env ht p)"] show ?case
    by (simp add: case_prod_unfold)
qed

text \<open>
  C6. With \<open>--update\<close>, the repositories are loaded in this order: the output directory
  when one is given, then the input directory, then each \<open>--update-md-path\<close> in the
  order of the list. The table that results maps a file name to the last entry loaded for
  it in that order. So an entry of the input directory stands in the table, whatever the
  output directory holds for that name, unless an \<open>--update-md-path\<close> has the name too.
\<close>

theorem C6_load_order:
  assumes "opt_update options"
  shows "\<exists>ht. loaded_paths (fst (load_old_metadata env options dirs))
              = (if opt_outputdir options \<noteq> None then [out_dir dirs] else [])
                @ [in_dir dirs] @ opt_l_update_md_paths options
            \<and> snd (load_old_metadata env options dirs) = Some ht
            \<and> ht = map_of (rev (concat (map (\<lambda>p. snd (repodata env p))
                      ((if opt_outputdir options \<noteq> None then [out_dir dirs] else [])
                       @ [in_dir dirs] @ opt_l_update_md_paths options))))
            \<and> (\<forall>key pkg. map_of (rev (snd (repodata env (in_dir dirs)))) key = Some pkg
                  \<and> (\<forall>p \<in> set (opt_l_update_md_paths options).
                        key \<notin> fst ` set (snd (repodata env p)))
                  \<longrightarrow> ht key = Some pkg)"
proof -
  let ?srcs = "(if opt_outputdir options \<noteq> None then [out_dir dirs] else [])
               @ [in_dir dirs] @ opt_l_update_md_paths options"
  let ?ht = "map_of (rev (concat (map (\<lambda>p. snd (repodata env p)) ?srcs)))"
  have paths: "loaded_paths (fst (load_old_metadata env options dirs)) = ?srcs"
    using assms
    by (simp add: load_old_metadata_def Let_def case_prod_unfold load_update_md_paths_table)
  have table: "snd (load_old_metadata env options dirs) = Some ?ht"
    using assms
    by (simp add: load_old_metadata_def Let_def case_prod_unfold load_update_md_paths_table
        locate_and_load_table)
  have over: "?ht key = Some pkg"
    if "map_of (rev (snd (repodata env (in_dir dirs)))) key = Some pkg"
      and "\<forall>p \<in> set (opt_l_update_md_paths options). key \<notin> fst ` set (snd (repodata env p))"
    for key pkg
  proof -
    have "map_of (rev (concat (map (\<lambda>p. snd (repodata env p)) (opt_l_update_md_paths options))))
            key = None"
      using that(2) by (auto simp: map_of_eq_None_iff)
    with that(1) show ?thesis by (simp add: map_add_def)
  qed
  from paths table over show ?thesis by blast
qed

theorem C6_load_order_witness:
  "opt_update update_options
   \<and> loaded_paths (fst (load_old_metadata update_env update_options update_dirs))
       = [''/out/'', ''/repo/'', ''/extra/'']
   \<and> map_option (\<lambda>ht. (ht ''a.rpm'', ht ''c.rpm''))
        (snd (load_old_metadata update_env update_options update_dirs))
       = Some (Some (example_package ''a.rpm''), Some (example_package ''c.rpm''))"
  using C6_load_order [of update_options update_env update_dirs]
  by (simp add: update_options_def update_env_def update_dirs_def example_defs
      load_old_metadata_def locate_and_load_xml_metadata_def)

section \<open>Symbolic links in the walk\<close>

text \<open>
  C9, as the code has it. With \<open>--skip-symlinks\<close>, a directory entry that is a symbolic
  link yields no task. If its name ends in \<open>.rpm\<close> the entry changes nothing at all. If
  its name does not end in \<open>.rpm\<close>, the test for links is not reached: the entry is
  queued for traversal exactly if it is not a regular file and is a directory, link or
  not.
\<close>

theorem C9_symlinks_in_walk:
  assumes "opt_skip_symlinks options" and "is_symlink env (dirname @ ''/'' @ fname)"
  shows "pool (scan_entry env options indir dirname fname w) = pool w
       \<and> package_count (scan_entry env options indir dirname fname w) = package_count w
       \<and> events (scan_entry env options indir dirname fname w) = events w
       \<and> (g_str_has_suffix fname ''.rpm''
            \<longrightarrow> scan_entry env options indir dirname fname w = w)
       \<and> (\<not> g_str_has_suffix fname ''.rpm''
            \<longrightarrow> sub_dirs (scan_entry env options indir dirname fname w)
                = (if \<not> is_regular env (dirname @ ''/'' @ fname)
                      \<and> is_dir env (dirname @ ''/'' @ fname)
                   then (dirname @ ''/'' @ fname) # sub_dirs w else sub_dirs w))"
  using assms by (simp add: scan_entry_def Let_def)

theorem C9_symlinks_in_walk_witness:
  "opt_skip_symlinks example_options
   \<and> is_symlink linking_env (''/repo'' @ ''/'' @ ''a.rpm'')
   \<and> g_str_has_suffix ''a.rpm'' ''.rpm''
   \<and> scan_entry linking_env example_options ''/repo/'' ''/repo'' ''a.rpm'' example_walk
       = example_walk
   \<and> pushed_tasks (events (scan_entry example_env example_options ''/repo/'' ''/repo''
                              ''a.rpm'' example_walk)) = [example_task]"
  using C9_symlinks_in_walk [of example_options linking_env "''/repo''" "''a.rpm''" "''/repo/''"
      example_walk]
  by (simp add: linking_env_def example_defs example_walk_def scan_entry_def Let_def
      g_str_has_suffix_def allowed_file_def add_task_def g_thread_pool_push_def dispatch_def)

text \<open>
  The claim as it is stated fails on the example repository: with \<open>--skip-symlinks\<close> on,
  the entry \<open>link\<close>, a symbolic link to a directory, is queued for traversal, and the
  package below it is pushed to the pool.
\<close>

theorem C9_counterexample:
  "opt_skip_symlinks example_options
   \<and> is_symlink example_env ''/repo/link''
   \<and> is_dir example_env ''/repo/link''
   \<and> sub_dirs (scan_entry example_env example_options ''/repo/'' ''/repo'' ''link'' example_walk)
       = [''/repo/link'']
   \<and> G_thread_pool_push linked_task \<in> set (trace_of (main 2 example_env))"
proof -
  have "G_thread_pool_push linked_task \<in> set (trace_of (main 2 example_env))"
    by (simp add: example_run example_trace_defs)
  moreover have "opt_skip_symlinks example_options
     \<and> is_symlink example_env ''/repo/link''
     \<and> is_dir example_env ''/repo/link''
     \<and> sub_dirs (scan_entry example_env example_options ''/repo/'' ''/repo'' ''link''
           example_walk) = [''/repo/link'']"
    by (simp add: example_defs example_walk_def scan_entry_def g_str_has_suffix_def)
  ultimately show ?thesis by blast
qed

end
